theory Spec2Isabelle
  imports Main "HOL-Library.Sublist" "HOL-Library.Multiset"
begin

section \<open>Errors, results and formatting\<close>

text \<open>
  A Go \<open>error\<close> is modelled by the text its \<open>Error()\<close> method returns: the tests of the
  repository inspect errors through that text only.  \<open>fmt.Errorf("p: %w", err)\<close> yields the
  text \<open>p: \<close> followed by the text of \<open>err\<close>.

  A function of the program either panics (a run-time error such as an index out of range),
  returns a non-nil error, or returns a value.
\<close>

type_synonym error = string

datatype 'a result = Panic | Err error | Ok 'a

definition wrap :: "string \<Rightarrow> error \<Rightarrow> error" where
  "wrap p e = p @ '': '' @ e"

definition digit :: "nat \<Rightarrow> char" where
  "digit d = ''0123456789'' ! d"

function utoa :: "nat \<Rightarrow> string" where
  "utoa n = (if n < 10 then [digit n] else utoa (n div 10) @ [digit (n mod 10)])"
  by pat_completeness auto
termination
  by (relation "measure id") auto

declare utoa.simps [simp del]

text \<open>The verb \<open>%d\<close> of package \<open>fmt\<close> applied to an \<open>int\<close>.\<close>

definition itoa :: "int \<Rightarrow> string" where
  "itoa i = (if i < 0 then CHR ''-'' # utoa (nat (- i)) else utoa (nat i))"

section \<open>Library functions: \<open>strconv.Atoi\<close> and HTTP responses\<close>

text \<open>
  \<open>strconv.Atoi\<close> is \<open>ParseInt(s, 10, 0)\<close> (its fast path for short strings computes the
  same result): an optional sign, then \<open>ParseUint\<close> on the rest, which goes through the
  bytes, fails with a syntax error at the first byte that is not a decimal digit and with a
  range error when the value leaves 64 bits; \<open>ParseInt\<close> then checks the value against
  \<open>2 ^ 63\<close>.  An \<open>int\<close> has 64 bits.
\<close>

datatype NumError = ErrSyntax | ErrRange

definition is_digit :: "char \<Rightarrow> bool" where
  "is_digit c = (of_char CHR ''0'' \<le> (of_char c :: nat) \<and> (of_char c :: nat) \<le> of_char CHR ''9'')"

fun ParseUint_loop :: "nat \<Rightarrow> string \<Rightarrow> NumError + nat" where
  "ParseUint_loop n [] = Inr n"
| "ParseUint_loop n (c # s) =
     (if \<not> is_digit c then Inl ErrSyntax
      else if n \<ge> (2 ^ 64 - 1) div 10 + 1 then Inl ErrRange
      else let n1 = n * 10 + (of_char c - of_char CHR ''0'')
           in if n1 > 2 ^ 64 - 1 then Inl ErrRange else ParseUint_loop n1 s)"

definition ParseUint :: "string \<Rightarrow> NumError + nat" where
  "ParseUint s = (if s = '''' then Inl ErrSyntax else ParseUint_loop 0 s)"

definition ParseInt :: "string \<Rightarrow> NumError + int" where
  "ParseInt s =
     (case s of
        [] \<Rightarrow> Inl ErrSyntax
      | c # rest \<Rightarrow>
          let neg = (c = CHR ''-'');
              s' = (if c = CHR ''+'' \<or> c = CHR ''-'' then rest else s)
          in (case ParseUint s' of
                Inl err \<Rightarrow> Inl err
              | Inr un \<Rightarrow>
                  if \<not> neg \<and> un \<ge> 2 ^ 63 then Inl ErrRange
                  else if neg \<and> un > 2 ^ 63 then Inl ErrRange
                  else Inr (if neg then - int un else int un)))"

text \<open>
  The text of a \<open>*strconv.NumError\<close>.  The input is shown between double quotes; the
  escaping that \<open>strconv.Quote\<close> applies to bytes that are not printable is left out (no
  statement below depends on the quoted text).
\<close>

definition NumError_text :: "string \<Rightarrow> string \<Rightarrow> NumError \<Rightarrow> error" where
  "NumError_text fn s err =
     ''strconv.'' @ fn @ '': parsing '' @ [CHR 0x22] @ s @ [CHR 0x22] @ '': '' @
     (case err of ErrSyntax \<Rightarrow> ''invalid syntax'' | ErrRange \<Rightarrow> ''value out of range'')"

definition Atoi :: "string \<Rightarrow> error + int" where
  "Atoi s = (case ParseInt s of Inl err \<Rightarrow> Inl (NumError_text ''Atoi'' s err) | Inr n \<Rightarrow> Inr n)"

text \<open>
  A numeric string: an optional sign followed by one or more decimal digits.
\<close>

definition numeric :: "string \<Rightarrow> bool" where
  "numeric s =
     (case s of
        [] \<Rightarrow> False
      | c # rest \<Rightarrow>
          if c = CHR ''+'' \<or> c = CHR ''-'' then rest \<noteq> [] \<and> list_all is_digit rest
          else list_all is_digit s)"

text \<open>
  An HTTP response: the status code, the headers, and the body.  The body is the bytes that
  can be read from it and the error, if any, that ends the reading (\<open>io.ReadAll\<close> returns
  both).  \<open>Header.Get\<close> returns the empty string for a header that is absent.
\<close>

type_synonym body = "string \<times> error option"

record HTTPResponse =
  StatusCode :: int
  Header :: "string \<rightharpoonup> string"
  Body :: body

definition Header_Get :: "(string \<rightharpoonup> string) \<Rightarrow> string \<Rightarrow> string" where
  "Header_Get h key = (case h key of None \<Rightarrow> '''' | Some v \<Rightarrow> v)"

section \<open>Package vectorization: the client of the embedding service\<close>

text \<open>
  The client holds the base URL and an HTTP client.  What the HTTP client and the library
  functions called by \<open>VectorizeBatch\<close> return is not decided by the repository, so the model
  takes them as fields of the client: \<open>http_Post url contentType body\<close> is the outcome of
  \<open>httpClient.Post\<close> (a transport error or a response), \<open>json_Marshal\<close> and
  \<open>json_Unmarshal\<close> are the JSON encoder and decoder at the two types used, and
  \<open>base64_DecodeString\<close> is \<open>base64.StdEncoding.DecodeString\<close>.  Byte slices are strings.
\<close>

record EmbeddingData =
  Embedding :: string
  Dimension :: int

record Client =
  baseURL :: string
  http_Post :: "string \<Rightarrow> string \<Rightarrow> string \<Rightarrow> error + HTTPResponse"
  json_Marshal :: "string list \<Rightarrow> error + string"
  json_Unmarshal :: "string \<Rightarrow> error + EmbeddingData list"
  base64_DecodeString :: "string \<Rightarrow> error + string"

text \<open>A remote call is recorded as the pair of the URL and the body posted.\<close>

type_synonym call = "string \<times> string"

text \<open>The loop of \<open>VectorizeBatch\<close> over the embeddings of the response, from index \<open>i\<close>.\<close>

fun decodeEmbeddings :: "Client \<Rightarrow> nat \<Rightarrow> EmbeddingData list \<Rightarrow> string list result" where
  "decodeEmbeddings c i [] = Ok []"
| "decodeEmbeddings c i (embData # rest) =
     (case base64_DecodeString c (Embedding embData) of
        Inl e \<Rightarrow> Err (wrap (''failed to decode embedding bytes at index '' @ itoa (int i)) e)
      | Inr embeddingBytes \<Rightarrow>
          if length embeddingBytes = 0
          then Err (''received empty embedding at index '' @ itoa (int i) @ '' from vectorizer'')
          else (case decodeEmbeddings c (i + 1) rest of
                  Ok embeddings \<Rightarrow> Ok (embeddingBytes # embeddings)
                | Err e \<Rightarrow> Err e
                | Panic \<Rightarrow> Panic))"

text \<open>
  \<open>VectorizeBatch\<close> returns its result together with the remote calls it made, in order.
\<close>

definition VectorizeBatch :: "Client \<Rightarrow> string list \<Rightarrow> string list result \<times> call list" where
  "VectorizeBatch c texts =
     (if length texts = 0 then (Err ''texts cannot be empty'', [])
      else case json_Marshal c texts of
        Inl e \<Rightarrow> (Err (wrap ''failed to marshal request'' e), [])
      | Inr jsonData \<Rightarrow>
          let url = baseURL c @ ''/embed'' in
          (case http_Post c url ''application/json'' jsonData of
             Inl e \<Rightarrow> Err (wrap ''failed to send request to vectorizer'' e)
           | Inr resp \<Rightarrow>
               if StatusCode resp \<noteq> 200
               then Err (''vectorizer returned status '' @ itoa (StatusCode resp) @ '': '' @ fst (Body resp))
               else (case snd (Body resp) of
                  Some e \<Rightarrow> Err (wrap ''failed to read vectorizer response'' e)
                | None \<Rightarrow>
                   (case json_Unmarshal c (fst (Body resp)) of
                      Inl e \<Rightarrow> Err (wrap ''failed to unmarshal vectorizer response'' e)
                    | Inr embs \<Rightarrow>
                        if length embs \<noteq> length texts
                        then Err (''expected '' @ itoa (int (length texts)) @ '' embeddings, got ''
                                   @ itoa (int (length embs)))
                        else decodeEmbeddings c 0 embs)),
           [(url, jsonData)]))"

definition Vectorize :: "Client \<Rightarrow> string \<Rightarrow> string result \<times> call list" where
  "Vectorize c text =
     (if text = '''' then (Err ''text cannot be empty'', [])
      else case VectorizeBatch c [text] of
        (Err e, calls) \<Rightarrow> (Err e, calls)
      | (Panic, calls) \<Rightarrow> (Panic, calls)
      | (Ok embeddings, calls) \<Rightarrow>
          (case embeddings of [] \<Rightarrow> Panic | e # _ \<Rightarrow> Ok e, calls))"

text \<open>
  What the embedding service answered to the request for \<open>texts\<close>: the decoded list of the
  response, when the request was sent and answered with status 200 and a readable body.
\<close>

definition service_reply :: "Client \<Rightarrow> string list \<Rightarrow> EmbeddingData list option" where
  "service_reply c texts =
     (case json_Marshal c texts of
        Inl e \<Rightarrow> None
      | Inr jsonData \<Rightarrow>
          (case http_Post c (baseURL c @ ''/embed'') ''application/json'' jsonData of
             Inl e \<Rightarrow> None
           | Inr resp \<Rightarrow>
               if StatusCode resp = 200 \<and> snd (Body resp) = None
               then (case json_Unmarshal c (fst (Body resp)) of Inl e \<Rightarrow> None | Inr embs \<Rightarrow> Some embs)
               else None))"

section \<open>Package store: the client of the Redis store\<close>

text \<open>
  The Redis server keeps hashes under keys.  \<open>HSET key f v ...\<close> sets the given fields of the
  hash under \<open>key\<close>, which it creates when there is none, and leaves the other fields as they
  are.  A pipeline is a list of commands sent to the server in one remote call.

  What happens to a pipeline is decided by the server and the network, not by the
  repository: \<open>faults r n\<close> tells it for pipeline number \<open>n\<close> (counted from 0). \<open>None\<close> means
  that every command is served and \<open>Exec\<close> returns no error; \<open>Some (served, e)\<close> means that
  \<open>Exec\<close> returns the error \<open>e\<close> and that only the commands at the indices satisfying
  \<open>served\<close> have been served (none of them, when the server was never reached).
\<close>

type_synonym hash = "string \<rightharpoonup> string"

datatype command = HSet string "(string \<times> string) list"

record redis =
  hashes :: "string \<rightharpoonup> hash"
  pipelines :: "command list list"
  faults :: "nat \<Rightarrow> ((nat \<Rightarrow> bool) \<times> error) option"

fun serve :: "command \<Rightarrow> (string \<rightharpoonup> hash) \<Rightarrow> (string \<rightharpoonup> hash)" where
  "serve (HSet key fvs) hs =
     hs(key \<mapsto> fold (\<lambda>(f, v) h. h(f \<mapsto> v)) fvs (case hs key of None \<Rightarrow> Map.empty | Some h \<Rightarrow> h))"

fun served_commands :: "(nat \<Rightarrow> bool) \<Rightarrow> nat \<Rightarrow> command list \<Rightarrow> command list" where
  "served_commands served k [] = []"
| "served_commands served k (cmd # cmds) =
     (if served k then [cmd] else []) @ served_commands served (k + 1) cmds"

definition pipe_Exec :: "redis \<Rightarrow> command list \<Rightarrow> error option \<times> redis" where
  "pipe_Exec r cmds =
     (case faults r (length (pipelines r)) of
        None \<Rightarrow>
          (None, r\<lparr>hashes := fold serve cmds (hashes r), pipelines := pipelines r @ [cmds]\<rparr>)
      | Some (served, e) \<Rightarrow>
          (Some e, r\<lparr>hashes := fold serve (served_commands served 0 cmds) (hashes r),
                     pipelines := pipelines r @ [cmds]\<rparr>))"

text \<open>\<open>store.Article\<close>, the model of a stored article.\<close>

record store_Article =
  store_Title :: string
  store_Link :: string
  store_Embedding :: string

definition ArticlePrefix :: string where
  "ArticlePrefix = ''article:''"

text \<open>
  The command that \<open>StoreArticles\<close> queues for one article.  (The three fields are distinct,
  so the order in which the Go map is traversed does not matter.)
\<close>

definition article_HSet :: "store_Article \<Rightarrow> command" where
  "article_HSet article =
     HSet (ArticlePrefix @ store_Title article)
       [(''title'', store_Title article), (''link'', store_Link article),
        (''embedding'', store_Embedding article)]"

definition StoreArticles :: "redis \<Rightarrow> store_Article list \<Rightarrow> error option \<times> redis" where
  "StoreArticles r articles =
     (if length articles = 0 then (None, r)
      else case pipe_Exec r (map article_HSet articles) of
        (Some e, r') \<Rightarrow> (Some (wrap ''failed to store articles'' e), r')
      | (None, r') \<Rightarrow> (None, r'))"

section \<open>Package importer: one page\<close>

text \<open>
  A value decoded from JSON into \<open>interface{}\<close> is a string or a value of another kind.
\<close>

datatype any = AString string | ANotString

record WPPost =
  wp_Title :: "string \<rightharpoonup> any"
  wp_Excerpt :: "string \<rightharpoonup> any"
  wp_Link :: string

record Article =
  Title :: string
  Description :: string
  Link :: string

record VectorizedArticle =
  va_Article :: Article
  va_Embedding :: string

text \<open>
  The importer.  Its store and its vectorizer are interfaces: the model holds the method of
  each that the importer calls, the store's as a function on the state \<open>'st\<close> of the store.
  \<open>httpClient_Get url\<close> is the outcome of \<open>httpClient.Get\<close>, and \<open>json_Decode\<close> the outcome of
  decoding a body into \<open>[]WPPost\<close>.  The logger is left out: it changes no result.
\<close>

record 'st Importer =
  target :: string
  store_StoreArticles :: "'st \<Rightarrow> store_Article list \<Rightarrow> error option \<times> 'st"
  vectorizerClient_VectorizeBatch :: "string list \<Rightarrow> string list result"
  maxGoroutines :: int
  httpClient_Get :: "string \<Rightarrow> error + HTTPResponse"
  json_Decode :: "body \<Rightarrow> error + WPPost list"

text \<open>
  What a run can observe of the world: the state of the store, and the record of what
  happened, in order: \<open>Fetch page hitsPerPage\<close> when \<open>vectorizePostsPage\<close> requests a page
  from the source, \<open>Store page articles\<close> when it hands the articles of a page to the
  store, and \<open>Return page err\<close> when the task of a page has returned \<open>err\<close> to the group of
  the initial import.
\<close>

datatype event = Fetch int int | Store int "store_Article list" | Return int "error option"

record 'st world =
  db :: 'st
  events :: "event list"

definition posts_url :: "string \<Rightarrow> int \<Rightarrow> int \<Rightarrow> string" where
  "posts_url tgt hitsPerPage page =
     tgt @ ''/wp-json/wp/v2/posts?_fields=title,excerpt,link&per_page='' @ itoa hitsPerPage
       @ ''&page='' @ itoa page"

definition fetchPostsPage :: "'st Importer \<Rightarrow> int \<Rightarrow> int \<Rightarrow> (WPPost list \<times> int) result" where
  "fetchPostsPage i page hitsPerPage =
     (case httpClient_Get i (posts_url (target i) hitsPerPage page) of
        Inl e \<Rightarrow> Err (wrap ''failed to create request'' e)
      | Inr resp \<Rightarrow>
          (case Atoi (Header_Get (Header resp) ''X-WP-TotalPages'') of
             Inl e \<Rightarrow> Err (wrap ''failed to parse total pages'' e)
           | Inr nbPages \<Rightarrow>
               if StatusCode resp \<noteq> 200
               then Err (''failed to fetch posts, status code: '' @ itoa (StatusCode resp))
               else (case json_Decode i (Body resp) of
                       Inl e \<Rightarrow> Err (wrap ''failed to decode response'' e)
                     | Inr posts \<Rightarrow> Ok (posts, nbPages))))"

text \<open>\<open>m["rendered"].(string)\<close> with the result of a failed assertion dropped.\<close>

definition rendered :: "(string \<rightharpoonup> any) \<Rightarrow> string" where
  "rendered m = (case m ''rendered'' of Some (AString s) \<Rightarrow> s | _ \<Rightarrow> '''')"

definition post_Article :: "WPPost \<Rightarrow> Article" where
  "post_Article post =
     \<lparr>Title = rendered (wp_Title post), Description = rendered (wp_Excerpt post),
      Link = wp_Link post\<rparr>"

definition article_text :: "Article \<Rightarrow> string" where
  "article_text article = Title article @ ''. '' @ Description article"

text \<open>
  The second loop of \<open>vectorizeArticles\<close>, from index \<open>k\<close>: it reads \<open>articles[k]\<close> for every
  index of the embeddings, and Go panics when the index is out of range.
\<close>

fun pair_embeddings :: "Article list \<Rightarrow> nat \<Rightarrow> string list \<Rightarrow> VectorizedArticle list result" where
  "pair_embeddings articles k [] = Ok []"
| "pair_embeddings articles k (embedding # rest) =
     (if k < length articles
      then (case pair_embeddings articles (k + 1) rest of
              Ok vectorizedArticles \<Rightarrow>
                Ok (\<lparr>va_Article = articles ! k, va_Embedding = embedding\<rparr> # vectorizedArticles)
            | Err e \<Rightarrow> Err e
            | Panic \<Rightarrow> Panic)
      else Panic)"

definition vectorizeArticles :: "'st Importer \<Rightarrow> Article list \<Rightarrow> VectorizedArticle list result" where
  "vectorizeArticles i articles =
     (let textsToVectorize = map article_text articles in
      case vectorizerClient_VectorizeBatch i textsToVectorize of
        Panic \<Rightarrow> Panic
      | Err e \<Rightarrow> Err (wrap ''failed to vectorize articles in batch'' e)
      | Ok embeddings \<Rightarrow> pair_embeddings articles 0 embeddings)"

definition to_store_Article :: "VectorizedArticle \<Rightarrow> store_Article" where
  "to_store_Article va =
     \<lparr>store_Title = Title (va_Article va), store_Link = Link (va_Article va),
      store_Embedding = va_Embedding va\<rparr>"

definition storeArticles :: "'st Importer \<Rightarrow> 'st \<Rightarrow> VectorizedArticle list \<Rightarrow> error option \<times> 'st" where
  "storeArticles i st vectorizedArticles =
     (let articles = map to_store_Article vectorizedArticles in
      case store_StoreArticles i st articles of
        (Some e, st') \<Rightarrow> (Some (wrap ''failed to store articles'' e), st')
      | (None, st') \<Rightarrow> (None, st'))"

text \<open>
  \<open>vectorizePostsPage\<close> returns the number of pages that the response announces; with an
  error it returns 0, which no caller reads.
\<close>

definition vectorizePostsPage :: "'st Importer \<Rightarrow> int \<Rightarrow> int \<Rightarrow> 'st world \<Rightarrow> int result \<times> 'st world" where
  "vectorizePostsPage i page hitsPerPage w =
     (let w1 = w\<lparr>events := events w @ [Fetch page hitsPerPage]\<rparr> in
      case fetchPostsPage i page hitsPerPage of
        Panic \<Rightarrow> (Panic, w1)
      | Err e \<Rightarrow> (Err (wrap (''failed to fetch posts for page '' @ itoa page) e), w1)
      | Ok (posts, nbPages) \<Rightarrow>
          let articles = map post_Article posts in
          (case vectorizeArticles i articles of
             Panic \<Rightarrow> (Panic, w1)
           | Err e \<Rightarrow> (Err (wrap ''failed to vectorize articles'' e), w1)
           | Ok vectorizedArticles \<Rightarrow>
               let w2 = w1\<lparr>events := events w1 @ [Store page (map to_store_Article vectorizedArticles)]\<rparr>
               in (case storeArticles i (db w2) vectorizedArticles of
                     (Some e, st') \<Rightarrow> (Err (wrap ''failed to store articles'' e), w2\<lparr>db := st'\<rparr>)
                   | (None, st') \<Rightarrow> (Ok nbPages, w2\<lparr>db := st'\<rparr>))))"

text \<open>The production vectorizer, as the importer sees it.\<close>

definition client_VectorizeBatch :: "Client \<Rightarrow> string list \<Rightarrow> string list result" where
  "client_VectorizeBatch c texts = fst (VectorizeBatch c texts)"

section \<open>Package importer: the initial import\<close>

text \<open>
  \<open>initialImport\<close> runs the first page by itself.  For the pages from 2 to the number of
  pages that the first page announced, it starts one task per page in an
  \<open>errgroup.Group\<close> limited to \<open>maxGoroutines\<close>, and waits for all of them.

  The group is modelled by the steps that the Go scheduler can interleave:
  \<^item> \<open>Go\<close>: the loop of \<open>initialImport\<close> passes \<open>grp.Go\<close> for the next page.  \<open>grp.Go\<close>
    blocks while the group holds as many tokens as its limit (a negative limit is no
    limit, and with the limit 0 it blocks for ever); then the task takes a token and
    starts.
  \<^item> \<open>Work p\<close>: the task of page \<open>p\<close> runs \<open>vectorizePostsPage\<close>.  The task meets the other
    tasks in the store only, so its run counts as one step.  A panic in a task ends the
    process.
  \<^item> \<open>Done p\<close>: the task of page \<open>p\<close> hands its result to the group, which keeps the first
    error it is handed (\<open>errOnce\<close>), and gives its token back.
  The group has no context, so an error stops neither the loop nor the other tasks.
  The progress message that the loop logs at every tenth page changes no result (its
  division is guarded by \<open>nbPages > 0\<close>).  The loop variable is counted in \<open>int\<close>: in
  Go it has 64 bits and would overflow only after the task of page \<open>2 ^ 63 - 1\<close>, the
  largest number of pages that \<open>strconv.Atoi\<close> lets through.
\<close>

datatype action = Go | Work int | Done int

record 'st group =
  next_page :: int
  running :: "int list"
  returned :: "(int \<times> error option) list"
  group_err :: "error option"
  crashed :: bool
  world :: "'st world"

definition room :: "int \<Rightarrow> nat \<Rightarrow> bool" where
  "room limit n = (limit < 0 \<or> int n < limit)"

definition in_flight :: "'st group \<Rightarrow> nat" where
  "in_flight g = length (running g) + length (returned g)"

fun step :: "'st Importer \<Rightarrow> int \<Rightarrow> 'st group \<Rightarrow> action \<Rightarrow> 'st group option" where
  "step i nbPages g Go =
     (if \<not> crashed g \<and> next_page g \<le> nbPages \<and> room (maxGoroutines i) (in_flight g)
      then Some (g\<lparr>running := running g @ [next_page g], next_page := next_page g + 1\<rparr>)
      else None)"
| "step i nbPages g (Work p) =
     (if \<not> crashed g \<and> p \<in> set (running g)
      then (case vectorizePostsPage i p 100 (world g) of
              (Panic, w) \<Rightarrow> Some (g\<lparr>crashed := True, world := w\<rparr>)
            | (Err e, w) \<Rightarrow>
                Some (g\<lparr>running := remove1 p (running g),
                        returned := returned g @ [(p, Some e)], world := w\<rparr>)
            | (Ok n, w) \<Rightarrow>
                Some (g\<lparr>running := remove1 p (running g),
                        returned := returned g @ [(p, None)], world := w\<rparr>))
      else None)"
| "step i nbPages g (Done p) =
     (if crashed g then None
      else case map_of (returned g) p of
        None \<Rightarrow> None
      | Some r \<Rightarrow>
          Some (g\<lparr>returned := remove1 (p, r) (returned g),
                  group_err := (case group_err g of None \<Rightarrow> r | Some e \<Rightarrow> Some e),
                  world := (world g)\<lparr>events := events (world g) @ [Return p r]\<rparr>\<rparr>))"

text \<open>A schedule is a list of steps; it can be run when each step is enabled in its turn.\<close>

fun run :: "'st Importer \<Rightarrow> int \<Rightarrow> 'st group \<Rightarrow> action list \<Rightarrow> 'st group option" where
  "run i nbPages g [] = Some g"
| "run i nbPages g (a # sched) =
     (case step i nbPages g a of None \<Rightarrow> None | Some g' \<Rightarrow> run i nbPages g' sched)"

definition start :: "'st world \<Rightarrow> 'st group" where
  "start w =
     \<lparr>next_page = 2, running = [], returned = [], group_err = None, crashed = False, world = w\<rparr>"

text \<open>
  \<open>grp.Wait\<close> returns when the loop has ended and every task has given its token back.
\<close>

definition finished :: "int \<Rightarrow> 'st group \<Rightarrow> bool" where
  "finished nbPages g =
     (\<not> crashed g \<and> nbPages < next_page g \<and> running g = [] \<and> returned g = [])"

text \<open>
  \<open>initialImport\<close> under a schedule of the group: its result and the world it leaves.
  The value is \<open>None\<close> when the schedule is not one of this run: a step of it is not
  enabled, or it ends before \<open>grp.Wait\<close> can return.
\<close>

definition initialImport ::
  "'st Importer \<Rightarrow> action list \<Rightarrow> 'st world \<Rightarrow> (unit result \<times> 'st world) option" where
  "initialImport i sched w =
     (case vectorizePostsPage i 1 100 w of
        (Panic, w1) \<Rightarrow> Some (Panic, w1)
      | (Err e, w1) \<Rightarrow> Some (Err (wrap ''failed to fetch number of pages'' e), w1)
      | (Ok nbPages, w1) \<Rightarrow>
          (case run i nbPages (start w1) sched of
             None \<Rightarrow> None
           | Some g \<Rightarrow>
               if crashed g then Some (Panic, world g)
               else if finished nbPages g
               then Some (case group_err g of
                            None \<Rightarrow> Ok ()
                          | Some e \<Rightarrow> Err (wrap ''error during initial import'' e),
                          world g)
               else None))"

text \<open>The parts of the record of events.\<close>

fun fetches :: "event list \<Rightarrow> (int \<times> int) list" where
  "fetches [] = []"
| "fetches (Fetch p h # evs) = (p, h) # fetches evs"
| "fetches (ev # evs) = fetches evs"

fun stores :: "event list \<Rightarrow> (int \<times> store_Article list) list" where
  "stores [] = []"
| "stores (Store p articles # evs) = (p, articles) # stores evs"
| "stores (ev # evs) = stores evs"

fun returns :: "event list \<Rightarrow> (int \<times> error option) list" where
  "returns [] = []"
| "returns (Return p r # evs) = (p, r) # returns evs"
| "returns (ev # evs) = returns evs"

text \<open>The first error in a list of results.\<close>

fun first_error :: "(int \<times> error option) list \<Rightarrow> error option" where
  "first_error [] = None"
| "first_error ((p, None) # rs) = first_error rs"
| "first_error ((p, Some e) # rs) = Some e"

text \<open>
  The documents of a page as \<open>vectorizePostsPage\<close> hands them to the store: the outcome of
  its fetch and of its vectorization.
\<close>

definition page_articles :: "'st Importer \<Rightarrow> int \<Rightarrow> int \<Rightarrow> store_Article list result" where
  "page_articles i page hitsPerPage =
     (case fetchPostsPage i page hitsPerPage of
        Panic \<Rightarrow> Panic
      | Err e \<Rightarrow> Err (wrap (''failed to fetch posts for page '' @ itoa page) e)
      | Ok (posts, nbPages) \<Rightarrow>
          (case vectorizeArticles i (map post_Article posts) of
             Panic \<Rightarrow> Panic
           | Err e \<Rightarrow> Err (wrap ''failed to vectorize articles'' e)
           | Ok vectorizedArticles \<Rightarrow> Ok (map to_store_Article vectorizedArticles)))"



text \<open>
  A vectorizer keeps to its contract when it does not panic and returns at most as many
  embeddings as it is given texts.
\<close>

definition keeps_contract :: "(string list \<Rightarrow> string list result) \<Rightarrow> bool" where
  "keeps_contract vec =
     (\<forall>texts. case vec texts of
        Panic \<Rightarrow> False
      | Err e \<Rightarrow> True
      | Ok embeddings \<Rightarrow> length embeddings \<le> length texts)"


text \<open>The number of pages that the response to the fetch of a page announces.\<close>

definition page_total :: "'st Importer \<Rightarrow> int \<Rightarrow> int \<Rightarrow> int" where
  "page_total i page hitsPerPage =
     (case fetchPostsPage i page hitsPerPage of Ok (posts, nbPages) \<Rightarrow> nbPages | _ \<Rightarrow> 0)"

text \<open>
  The books of a group over the events \<open>evs\<close> that happened since its start.  The pages
  worked are those whose task has run.  The loop variable stays between 2 and the page
  after the last; every page below it is with exactly one of: the tasks that have not run,
  the tasks that have run, the tasks that have handed in their result; every page worked
  has been fetched once, at page size 100, and handed to the store once if its fetch and
  its vectorization succeeded, and no other page has been touched; and the error of the
  group is the first error handed in.
\<close>

definition page_stores :: "'st Importer \<Rightarrow> int \<Rightarrow> (int \<times> store_Article list) list" where
  "page_stores i p = (case page_articles i p 100 of Ok articles \<Rightarrow> [(p, articles)] | _ \<Rightarrow> [])"

definition of_page :: "int \<Rightarrow> (int \<times> 'a) list \<Rightarrow> (int \<times> 'a) list" where
  "of_page p xs = filter (\<lambda>x. fst x = p) xs"

definition worked :: "'st group \<Rightarrow> event list \<Rightarrow> int multiset" where
  "worked g evs = mset (map fst (returned g)) + mset (map fst (returns evs))"

definition books :: "'st Importer \<Rightarrow> int \<Rightarrow> 'st group \<Rightarrow> event list \<Rightarrow> bool" where
  "books i n g evs =
     (2 \<le> next_page g \<and> next_page g \<le> max 2 (n + 1) \<and>
      mset (running g) + worked g evs = mset_set {2..<next_page g} \<and>
      (\<forall>p. of_page p (fetches evs) = (if p \<in># worked g evs then [(p, 100)] else [])) \<and>
      (\<forall>p. of_page p (stores evs) = (if p \<in># worked g evs then page_stores i p else [])) \<and>
      group_err g = first_error (returns evs))"



section \<open>Package retrieval: the search handler\<close>

text \<open>
  The scores are 64-bit floating point numbers, which the handler only copies: their type
  is the parameter \<open>'f\<close>.  The server's vectorizer and store are interfaces, held as the
  methods the handler calls; \<open>json_DecodeRequest\<close> is the outcome of decoding the request body
  into a \<open>SearchRequest\<close> (its \<open>Query\<close>), and \<open>json_Encode\<close> the outcome of encoding the
  response.
\<close>

record 'f SearchHit =
  hit_Title :: string
  hit_Link :: string
  hit_Score :: 'f

record 'f SearchResult =
  res_Title :: string
  res_URL :: string
  res_Score :: 'f

record 'f SearchResponse =
  Results :: "'f SearchResult list"
  Count :: int

record Request =
  Method :: string
  req_Body :: string

record 'f Server =
  vectorizerClient_Vectorize :: "string \<Rightarrow> string result"
  store_VectorSearch :: "string \<Rightarrow> int \<Rightarrow> error + 'f SearchHit list"
  json_DecodeRequest :: "string \<Rightarrow> error + string"
  json_Encode :: "'f SearchResponse \<Rightarrow> error + string"

text \<open>What the handler writes: the status code, the content type and the body.\<close>

record Reply =
  status :: int
  contentType :: string
  content :: string

text \<open>\<open>http.Error\<close> writes the message and a newline as plain text under the given code.\<close>

definition http_Error :: "string \<Rightarrow> int \<Rightarrow> Reply" where
  "http_Error msg code =
     \<lparr>status = code, contentType = ''text/plain; charset=utf-8'', content = msg @ [CHR 0x0A]\<rparr>"

definition to_SearchResult :: "'f SearchHit \<Rightarrow> 'f SearchResult" where
  "to_SearchResult sr = \<lparr>res_Title = hit_Title sr, res_URL = hit_Link sr, res_Score = hit_Score sr\<rparr>"

definition handleSearch :: "'f Server \<Rightarrow> Request \<Rightarrow> Reply result" where
  "handleSearch s r =
     (if Method r \<noteq> ''POST'' then Ok (http_Error ''Method not allowed'' 405)
      else case json_DecodeRequest s (req_Body r) of
        Inl e \<Rightarrow> Ok (http_Error ''Invalid request body'' 400)
      | Inr query \<Rightarrow>
          (case vectorizerClient_Vectorize s query of
             Panic \<Rightarrow> Panic
           | Err e \<Rightarrow> Ok (http_Error ''Failed to generate query embedding'' 500)
           | Ok embeddingBytes \<Rightarrow>
               (case store_VectorSearch s embeddingBytes 10 of
                  Inl e \<Rightarrow> Ok (http_Error ''Vector search failed'' 500)
                | Inr searchResults \<Rightarrow>
                    let results = map to_SearchResult searchResults;
                        response = \<lparr>Results = results, Count = int (length results)\<rparr>
                    in (case json_Encode s response of
                          Inl e \<Rightarrow> Ok (http_Error ''Failed to encode response'' 500)
                        | Inr text \<Rightarrow>
                            Ok \<lparr>status = 200, contentType = ''application/json'',
                               content = text\<rparr>))))"

text \<open>The production vectorizer, as the server sees it.\<close>

definition client_Vectorize :: "Client \<Rightarrow> string \<Rightarrow> string result" where
  "client_Vectorize c text = fst (Vectorize c text)"

section \<open>Concrete inputs\<close>

text \<open>
  An embedding service for the examples: it answers every request with status 200 and one
  one-byte embedding per byte of the request body; the encoder joins the texts, and the
  base64 decoder is the identity.  A request for \<open>[''a'', ''b'']\<close> is answered with two
  embeddings, a request for \<open>[''ab'', ''b'']\<close> with three.
\<close>

definition demo_client :: Client where
  "demo_client = \<lparr> baseURL = ''http://vectorizer'',
      http_Post = (\<lambda>url ct body. Inr \<lparr> StatusCode = 200, Header = Map.empty, Body = (body, None) \<rparr>),
      json_Marshal = (\<lambda>texts. Inr (concat texts)),
      json_Unmarshal = (\<lambda>body. Inr (map (\<lambda>ch. \<lparr> Embedding = [ch], Dimension = 1 \<rparr>) body)),
      base64_DecodeString = (\<lambda>s. Inr s) \<rparr>"

text \<open>
  A source for the examples: a list of pages with their responses, served at page size 100
  under the target \<open>http://wp\<close>; every other request fails in the transport.  The decoder
  reads one post per byte of the body, titled with that byte.  The example vectorizer
  returns one embedding per text.
\<close>

definition demo_post :: "string \<Rightarrow> WPPost" where
  "demo_post t =
     \<lparr>wp_Title = [''rendered'' \<mapsto> AString t], wp_Excerpt = [''rendered'' \<mapsto> AString ''text''],
      wp_Link = ''http://wp/'' @ t\<rparr>"

definition demo_Decode :: "body \<Rightarrow> error + WPPost list" where
  "demo_Decode b =
     (case snd b of Some e \<Rightarrow> Inl e | None \<Rightarrow> Inr (map (\<lambda>ch. demo_post [ch]) (fst b)))"

definition demo_response :: "int \<Rightarrow> string option \<Rightarrow> string \<Rightarrow> HTTPResponse" where
  "demo_response code hdr docs =
     \<lparr>StatusCode = code,
      Header = (case hdr of None \<Rightarrow> Map.empty | Some v \<Rightarrow> [''X-WP-TotalPages'' \<mapsto> v]),
      Body = (docs, None)\<rparr>"

definition demo_Get :: "(int \<times> HTTPResponse) list \<Rightarrow> string \<Rightarrow> error + HTTPResponse" where
  "demo_Get pages url =
     (case map_of (map (\<lambda>(p, r). (posts_url ''http://wp'' 100 p, r)) pages) url of
        None \<Rightarrow> Inl ''connection refused''
      | Some r \<Rightarrow> Inr r)"

definition demo_embed :: "string list \<Rightarrow> string list result" where
  "demo_embed texts = Ok (map (\<lambda>t. ''v:'' @ take 1 t) texts)"

definition demo_importer ::
  "(int \<times> HTTPResponse) list \<Rightarrow> (string list \<Rightarrow> string list result) \<Rightarrow> int \<Rightarrow> redis Importer" where
  "demo_importer pages vec n =
     \<lparr>target = ''http://wp'', store_StoreArticles = StoreArticles,
      vectorizerClient_VectorizeBatch = vec, maxGoroutines = n,
      httpClient_Get = demo_Get pages, json_Decode = demo_Decode\<rparr>"

definition empty_redis :: redis where
  "empty_redis = \<lparr>hashes = Map.empty, pipelines = [], faults = (\<lambda>n. None)\<rparr>"

definition empty_world :: "redis world" where
  "empty_world = \<lparr>db = empty_redis, events = []\<rparr>"

text \<open>
  A server for the examples: the body of a request is its query text, every search finds
  nothing, and the encoder writes the count.
\<close>

definition demo_server :: "(string \<Rightarrow> string result) \<Rightarrow> nat Server" where
  "demo_server vec =
     \<lparr>vectorizerClient_Vectorize = vec, store_VectorSearch = (\<lambda>emb k. Inr []),
      json_DecodeRequest = (\<lambda>b. Inr b),
      json_Encode = (\<lambda>resp. Inr (''count='' @ itoa (Count resp)))\<rparr>"

definition empty_query :: Request where
  "empty_query = \<lparr>Method = ''POST'', req_Body = ''''\<rparr>"

text \<open>
  A source of five pages for the examples, with one document on each page; the request for
  page 3 fails in the transport.  The importer of the examples reads it with a limit of two
  tasks.  In the schedule of the examples the tasks of pages 2 and 3 run side by side, page
  3 before page 2, and page 5 hands in its result before page 4.
\<close>

definition demo_site :: "(int \<times> HTTPResponse) list" where
  "demo_site =
     [(1, demo_response 200 (Some ''5'') ''a''), (2, demo_response 200 (Some ''5'') ''b''),
      (4, demo_response 200 (Some ''5'') ''d''), (5, demo_response 200 (Some ''5'') ''e'')]"

definition demo_run :: "redis Importer" where
  "demo_run = demo_importer demo_site demo_embed 2"

definition demo_schedule :: "action list" where
  "demo_schedule =
     [Go, Go, Work 3, Work 2, Done 2, Go, Done 3, Work 4, Go, Work 5, Done 5, Done 4]"

definition demo_article :: "string \<Rightarrow> store_Article" where
  "demo_article t =
     \<lparr>store_Title = t, store_Link = ''http://wp/'' @ t, store_Embedding = ''v:'' @ take 1 t\<rparr>"

text \<open>
  A source of two pages, read by an importer whose vectorizer fails on the text of the
  document of page 2.
\<close>

definition demo_site2 :: "(int \<times> HTTPResponse) list" where
  "demo_site2 =
     [(1, demo_response 200 (Some ''2'') ''a''), (2, demo_response 200 (Some ''2'') ''b'')]"

definition demo_embed2 :: "string list \<Rightarrow> string list result" where
  "demo_embed2 texts = (if texts = [''b. text''] then Err ''vectorizer down'' else demo_embed texts)"

definition demo_run2 :: "redis Importer" where
  "demo_run2 = demo_importer demo_site2 demo_embed2 2"

text \<open>
  The worlds of the examples: after the first page of the five, at the end of the import of
  the five pages, and at the end of the import of the two pages.
\<close>

definition demo_first :: "redis world" where
  "demo_first =
     \<lparr>db = \<lparr>hashes = serve (article_HSet (demo_article ''a'')) Map.empty,
             pipelines = [[article_HSet (demo_article ''a'')]],
             faults = (\<lambda>n. None)\<rparr>,
      events = [Fetch 1 100, Store 1 [demo_article ''a'']]\<rparr>"

definition demo_end :: "redis world" where
  "demo_end =
     \<lparr>db = \<lparr>hashes = serve (article_HSet (demo_article ''e''))
                      (serve (article_HSet (demo_article ''d''))
                        (serve (article_HSet (demo_article ''b''))
                          (serve (article_HSet (demo_article ''a'')) Map.empty))),
             pipelines = [[article_HSet (demo_article ''a'')], [article_HSet (demo_article ''b'')],
                          [article_HSet (demo_article ''d'')], [article_HSet (demo_article ''e'')]],
             faults = (\<lambda>n. None)\<rparr>,
      events = [Fetch 1 100, Store 1 [demo_article ''a''], Fetch 3 100,
                Fetch 2 100, Store 2 [demo_article ''b''], Return 2 None,
                Return 3 (Some ''failed to fetch posts for page 3: failed to create request: connection refused''),
                Fetch 4 100, Store 4 [demo_article ''d''], Fetch 5 100, Store 5 [demo_article ''e''],
                Return 5 None, Return 4 None]\<rparr>"

definition demo_end2 :: "redis world" where
  "demo_end2 =
     \<lparr>db = \<lparr>hashes = serve (article_HSet (demo_article ''a'')) Map.empty,
             pipelines = [[article_HSet (demo_article ''a'')]],
             faults = (\<lambda>n. None)\<rparr>,
      events = [Fetch 1 100, Store 1 [demo_article ''a''], Fetch 2 100,
                Return 2 (Some ''failed to vectorize articles: failed to vectorize articles in batch: vectorizer down'')]\<rparr>"

section \<open>Properties of \<open>strconv.Atoi\<close>\<close>

lemma ParseUint_loop_digits: "ParseUint_loop n s = Inr m \<Longrightarrow> list_all is_digit s"
  by (induction s arbitrary: n) (auto simp: Let_def split: if_splits)

lemma ParseUint_digits: "ParseUint s = Inr m \<Longrightarrow> s \<noteq> [] \<and> list_all is_digit s"
  by (auto simp: ParseUint_def split: if_splits dest: ParseUint_loop_digits)

lemma ParseInt_numeric: "ParseInt s = Inr n \<Longrightarrow> numeric s"
  by (cases s)
     (auto simp: ParseInt_def numeric_def Let_def split: if_splits sum.splits
           dest!: ParseUint_digits)

lemma Atoi_numeric: "Atoi s = Inr n \<Longrightarrow> numeric s"
  by (auto simp: Atoi_def split: sum.splits dest: ParseInt_numeric)

lemma Atoi_not_numeric: "\<not> numeric s \<Longrightarrow> \<exists>e. Atoi s = Inl e"
  by (cases "Atoi s") (auto dest: Atoi_numeric)

lemma not_numeric_empty: "\<not> numeric ''''"
  by (simp add: numeric_def)

lemmas Atoi_eval = Atoi_def ParseInt_def ParseUint_def is_digit_def NumError_text_def

lemmas itoa_eval = itoa_def utoa.simps digit_def

section \<open>Properties of the embedding client\<close>

lemma decodeEmbeddings_Ok:
  "decodeEmbeddings c i ds = Ok embs \<Longrightarrow>
     length embs = length ds \<and>
     (\<forall>j<length ds. base64_DecodeString c (Embedding (ds ! j)) = Inr (embs ! j))"
proof (induction ds arbitrary: i embs)
  case Nil
  then show ?case by simp
next
  case (Cons d ds)
  from Cons.prems obtain bs rest where
    d: "base64_DecodeString c (Embedding d) = Inr bs" and
    r: "decodeEmbeddings c (i + 1) ds = Ok rest" and
    e: "embs = bs # rest"
    by (auto split: sum.splits if_splits result.splits)
  from Cons.IH [OF r] d e show ?case
    by (auto simp: nth_Cons split: nat.splits)
qed

lemma decodeEmbeddings_no_Panic: "decodeEmbeddings c i ds \<noteq> Panic"
  by (induction ds arbitrary: i) (auto split: sum.splits result.splits)

lemma VectorizeBatch_no_Panic: "fst (VectorizeBatch c texts) \<noteq> Panic"
  by (auto simp: VectorizeBatch_def Let_def decodeEmbeddings_no_Panic
           split: sum.splits option.splits)

lemma VectorizeBatch_Ok_length:
  "fst (VectorizeBatch c texts) = Ok embs \<Longrightarrow> length embs = length texts"
  by (auto simp: VectorizeBatch_def Let_def
           split: sum.splits option.splits if_splits dest: decodeEmbeddings_Ok)

text \<open>
  Claim C3.  For a non-empty sequence of texts, a successful \<open>VectorizeBatch\<close> returns as
  many embeddings as there are texts, and the embedding at index \<open>i\<close> is the decoding of
  the entry at index \<open>i\<close> of the service's answer to these texts; when the service answers
  with a different number of entries, \<open>VectorizeBatch\<close> fails with the count-mismatch error
  and returns no sequence.
\<close>

theorem VectorizeBatch_same_length_and_order:
  "texts \<noteq> [] \<Longrightarrow>
     (\<forall>embs. fst (VectorizeBatch c texts) = Ok embs \<longrightarrow>
        length embs = length texts \<and>
        (\<exists>ds. service_reply c texts = Some ds \<and> length ds = length texts \<and>
          (\<forall>i<length texts. base64_DecodeString c (Embedding (ds ! i)) = Inr (embs ! i)))) \<and>
     (\<forall>ds. service_reply c texts = Some ds \<and> length ds \<noteq> length texts \<longrightarrow>
        fst (VectorizeBatch c texts) =
          Err (''expected '' @ itoa (int (length texts)) @ '' embeddings, got ''
                @ itoa (int (length ds))))"
  by (auto simp: VectorizeBatch_def service_reply_def Let_def
           split: sum.splits option.splits if_splits dest: decodeEmbeddings_Ok)

theorem VectorizeBatch_same_length_and_order_witness:
  "[''a'', ''b''] \<noteq> [] \<and> fst (VectorizeBatch demo_client [''a'', ''b'']) = Ok [''a'', ''b''] \<and>
   length [''a'', ''b''] = length [''a'', ''b''] \<and>
   [''ab'', ''b''] \<noteq> [] \<and>
   service_reply demo_client [''ab'', ''b''] =
     Some [\<lparr>Embedding = ''a'', Dimension = 1\<rparr>, \<lparr>Embedding = ''b'', Dimension = 1\<rparr>,
           \<lparr>Embedding = ''b'', Dimension = 1\<rparr>] \<and>
   fst (VectorizeBatch demo_client [''ab'', ''b'']) = Err ''expected 2 embeddings, got 3''"
  using VectorizeBatch_same_length_and_order [of "[''a'', ''b'']" demo_client]
        VectorizeBatch_same_length_and_order [of "[''ab'', ''b'']" demo_client]
  by (simp add: VectorizeBatch_def service_reply_def demo_client_def itoa_def utoa.simps digit_def)

text \<open>
  Claim C6.  \<open>VectorizeBatch\<close> on the empty sequence and \<open>Vectorize\<close> on the empty string
  fail with their validation errors and make no remote call.  On a non-empty string,
  \<open>Vectorize\<close> makes exactly the remote calls of \<open>VectorizeBatch\<close> on the one-element
  sequence, fails with its error when it fails, and otherwise returns its single embedding.
\<close>

theorem empty_input_no_remote_call:
  "VectorizeBatch c [] = (Err ''texts cannot be empty'', []) \<and>
   Vectorize c '''' = (Err ''text cannot be empty'', []) \<and>
   (text \<noteq> '''' \<longrightarrow>
      snd (Vectorize c text) = snd (VectorizeBatch c [text]) \<and>
      (\<forall>e. fst (VectorizeBatch c [text]) = Err e \<longrightarrow> fst (Vectorize c text) = Err e) \<and>
      (\<forall>embs. fst (VectorizeBatch c [text]) = Ok embs \<longrightarrow>
         (\<exists>e. embs = [e] \<and> fst (Vectorize c text) = Ok e)))"
proof -
  have a: "VectorizeBatch c [] = (Err ''texts cannot be empty'', [])"
    by (simp add: VectorizeBatch_def)
  have b: "Vectorize c '''' = (Err ''text cannot be empty'', [])"
    by (simp add: Vectorize_def)
  have c: "snd (Vectorize c text) = snd (VectorizeBatch c [text])" if "text \<noteq> ''''"
    using that by (cases "VectorizeBatch c [text]") (auto simp: Vectorize_def split: result.splits)
  have d: "fst (Vectorize c text) = Err e"
    if "text \<noteq> ''''" "fst (VectorizeBatch c [text]) = Err e" for e
    using that by (cases "VectorizeBatch c [text]") (auto simp: Vectorize_def)
  have e: "\<exists>e. embs = [e] \<and> fst (Vectorize c text) = Ok e"
    if "text \<noteq> ''''" "fst (VectorizeBatch c [text]) = Ok embs" for embs
  proof -
    from VectorizeBatch_Ok_length [OF that(2)] obtain x where "embs = [x]"
      by (cases embs) auto
    with that show ?thesis
      by (cases "VectorizeBatch c [text]") (auto simp: Vectorize_def)
  qed
  from a b c d e show ?thesis by blast
qed

theorem empty_input_no_remote_call_witness:
  "''q'' \<noteq> '''' \<and> fst (VectorizeBatch demo_client [''q'']) = Ok [''q''] \<and>
   Vectorize demo_client ''q'' = (Ok ''q'', [(''http://vectorizer/embed'', ''q'')]) \<and>
   ''qq'' \<noteq> '''' \<and> fst (VectorizeBatch demo_client [''qq'']) = Err ''expected 1 embeddings, got 2'' \<and>
   fst (Vectorize demo_client ''qq'') = Err ''expected 1 embeddings, got 2''"
  using empty_input_no_remote_call [of demo_client "''q''"]
        empty_input_no_remote_call [of demo_client "''qq''"]
  by (simp add: VectorizeBatch_def Vectorize_def demo_client_def itoa_def utoa.simps digit_def)

section \<open>Properties of the store client\<close>

text \<open>
  Claim C7.  On the empty batch \<open>StoreArticles\<close> returns no error and leaves the server as
  it is: no pipeline is sent (the record of the pipelines received is unchanged) and no
  hash changes.
\<close>

theorem StoreArticles_empty_batch: "StoreArticles r [] = (None, r)"
  by (simp add: StoreArticles_def)








section \<open>Properties of one page\<close>

lemma pair_embeddings_eq:
  "k \<le> length articles \<Longrightarrow>
   pair_embeddings articles k embs =
     (if k + length embs \<le> length articles
      then Ok (map2 (\<lambda>a e. \<lparr>va_Article = a, va_Embedding = e\<rparr>) (drop k articles) embs)
      else Panic)"
proof (induction embs arbitrary: k)
  case Nil
  then show ?case by simp
next
  case (Cons e embs)
  show ?case
  proof (cases "k < length articles")
    case True
    then have "drop k articles = articles ! k # drop (Suc k) articles"
      by (simp add: Cons_nth_drop_Suc)
    with True Cons.IH [of "k + 1"] show ?thesis by auto
  next
    case False
    then show ?thesis by simp
  qed
qed

text \<open>
  Claim C8.  \<open>vectorizeArticles\<close> pairs the embedding at every index of the returned slice
  with the article at that index and checks no count itself.  When the vectorizer returns at
  most as many embeddings as there are articles, the result is the list of these pairs;
  when it returns more, the index runs out of range and \<open>vectorizeArticles\<close> panics.
\<close>

theorem vectorizeArticles_indexing:
  "vectorizerClient_VectorizeBatch i (map article_text articles) = Ok embeddings \<Longrightarrow>
     (length embeddings \<le> length articles \<longrightarrow>
        vectorizeArticles i articles =
          Ok (map2 (\<lambda>a e. \<lparr>va_Article = a, va_Embedding = e\<rparr>) articles embeddings)) \<and>
     (length articles < length embeddings \<longrightarrow> vectorizeArticles i articles = Panic)"
  by (simp add: vectorizeArticles_def pair_embeddings_eq)

theorem vectorizeArticles_indexing_witness:
  "vectorizerClient_VectorizeBatch (demo_importer [] demo_embed 1)
     (map article_text [\<lparr>Title = ''a'', Description = ''x'', Link = ''l''\<rparr>]) = Ok [''v:a''] \<and>
   length [''v:a''] \<le> length [\<lparr>Title = ''a'', Description = ''x'', Link = ''l''\<rparr>] \<and>
   vectorizeArticles (demo_importer [] demo_embed 1) [\<lparr>Title = ''a'', Description = ''x'', Link = ''l''\<rparr>] =
     Ok [\<lparr>va_Article = \<lparr>Title = ''a'', Description = ''x'', Link = ''l''\<rparr>, va_Embedding = ''v:a''\<rparr>] \<and>
   vectorizerClient_VectorizeBatch (demo_importer [] (\<lambda>texts. Ok (''extra'' # texts)) 1)
     (map article_text [\<lparr>Title = ''a'', Description = ''x'', Link = ''l''\<rparr>]) = Ok [''extra'', ''a. x''] \<and>
   length [\<lparr>Title = ''a'', Description = ''x'', Link = ''l''\<rparr>] < length [''extra'', ''a. x''] \<and>
   vectorizeArticles (demo_importer [] (\<lambda>texts. Ok (''extra'' # texts)) 1)
     [\<lparr>Title = ''a'', Description = ''x'', Link = ''l''\<rparr>] = Panic"
proof -
  let ?a = "\<lparr>Title = ''a'', Description = ''x'', Link = ''l''\<rparr>"
  have h1: "vectorizerClient_VectorizeBatch (demo_importer [] demo_embed 1)
     (map article_text [?a]) = Ok [''v:a'']"
    by (simp add: demo_importer_def demo_embed_def article_text_def)
  have h2: "vectorizerClient_VectorizeBatch (demo_importer [] (\<lambda>texts. Ok (''extra'' # texts)) 1)
     (map article_text [?a]) = Ok [''extra'', ''a. x'']"
    by (simp add: demo_importer_def article_text_def)
  from vectorizeArticles_indexing [OF h1] vectorizeArticles_indexing [OF h2] h1 h2
  show ?thesis by simp
qed

text \<open>
  Claim C5.  When the response to the fetch has no \<open>X-WP-TotalPages\<close> header, or one
  that is not numeric, \<open>vectorizePostsPage\<close> fails with an error whose text contains
  \<open>failed to parse total pages\<close>, and the call hands nothing to the store: the world after
  it differs from the world before it by the record of the fetch only.
\<close>

theorem missing_total_pages_header:
  assumes "httpClient_Get i (posts_url (target i) hitsPerPage page) = Inr resp"
    and "Header resp ''X-WP-TotalPages'' = None \<or>
         (\<exists>v. Header resp ''X-WP-TotalPages'' = Some v \<and> \<not> numeric v)"
  shows "\<exists>e. vectorizePostsPage i page hitsPerPage w =
               (Err e, w\<lparr>events := events w @ [Fetch page hitsPerPage]\<rparr>) \<and>
             sublist ''failed to parse total pages'' e"
proof -
  from assms(2) have "\<not> numeric (Header_Get (Header resp) ''X-WP-TotalPages'')"
    by (auto simp: Header_Get_def not_numeric_empty)
  then obtain e where e: "Atoi (Header_Get (Header resp) ''X-WP-TotalPages'') = Inl e"
    using Atoi_not_numeric by blast
  let ?msg = "wrap (''failed to fetch posts for page '' @ itoa page) (wrap ''failed to parse total pages'' e)"
  from assms(1) e have "vectorizePostsPage i page hitsPerPage w =
      (Err ?msg, w\<lparr>events := events w @ [Fetch page hitsPerPage]\<rparr>)"
    by (simp add: vectorizePostsPage_def fetchPostsPage_def Let_def)
  moreover have "sublist ''failed to parse total pages'' ?msg"
    unfolding wrap_def sublist_def by (metis append.assoc)
  ultimately show ?thesis by blast
qed

theorem missing_total_pages_header_witness:
  "httpClient_Get (demo_importer [(1, demo_response 200 None ''ab'')] demo_embed 1)
     (posts_url (target (demo_importer [(1, demo_response 200 None ''ab'')] demo_embed 1)) 100 1) =
     Inr (demo_response 200 None ''ab'') \<and>
   Header (demo_response 200 None ''ab'') ''X-WP-TotalPages'' = None \<and>
   fst (vectorizePostsPage (demo_importer [(1, demo_response 200 None ''ab'')] demo_embed 1) 1 100 empty_world) =
     Err (''failed to fetch posts for page 1: failed to parse total pages: ''
           @ NumError_text ''Atoi'' '''' ErrSyntax) \<and>
   db (snd (vectorizePostsPage (demo_importer [(1, demo_response 200 None ''ab'')] demo_embed 1) 1 100 empty_world)) =
     empty_redis \<and>
   events (snd (vectorizePostsPage (demo_importer [(1, demo_response 200 None ''ab'')] demo_embed 1) 1 100 empty_world)) =
     [Fetch 1 100] \<and>
   httpClient_Get (demo_importer [(1, demo_response 200 (Some ''many'') ''ab'')] demo_embed 1)
     (posts_url (target (demo_importer [(1, demo_response 200 (Some ''many'') ''ab'')] demo_embed 1)) 100 1) =
     Inr (demo_response 200 (Some ''many'') ''ab'') \<and>
   Header (demo_response 200 (Some ''many'') ''ab'') ''X-WP-TotalPages'' = Some ''many'' \<and>
   \<not> numeric ''many'' \<and>
   (\<exists>e. vectorizePostsPage (demo_importer [(1, demo_response 200 (Some ''many'') ''ab'')] demo_embed 1) 1 100 empty_world =
     (Err e, empty_world\<lparr>events := events empty_world @ [Fetch 1 100]\<rparr>) \<and>
     sublist ''failed to parse total pages'' e)"
proof -
  let ?i = "demo_importer [(1, demo_response 200 None ''ab'')] demo_embed 1"
  let ?j = "demo_importer [(1, demo_response 200 (Some ''many'') ''ab'')] demo_embed 1"
  have g1: "httpClient_Get ?i (posts_url (target ?i) 100 1) = Inr (demo_response 200 None ''ab'')"
    by (simp add: demo_importer_def demo_Get_def)
  have a1: "Header (demo_response 200 None ''ab'') ''X-WP-TotalPages'' = None \<or>
         (\<exists>v. Header (demo_response 200 None ''ab'') ''X-WP-TotalPages'' = Some v \<and> \<not> numeric v)"
    by (simp add: demo_response_def)
  have g2: "httpClient_Get ?j (posts_url (target ?j) 100 1) = Inr (demo_response 200 (Some ''many'') ''ab'')"
    by (simp add: demo_importer_def demo_Get_def)
  have n2: "\<not> numeric ''many''"
    by (simp add: numeric_def is_digit_def)
  have a2: "Header (demo_response 200 (Some ''many'') ''ab'') ''X-WP-TotalPages'' = None \<or>
         (\<exists>v. Header (demo_response 200 (Some ''many'') ''ab'') ''X-WP-TotalPages'' = Some v \<and> \<not> numeric v)"
    using n2 by (simp add: demo_response_def)
  have e1: "vectorizePostsPage ?i 1 100 empty_world =
     (Err (''failed to fetch posts for page 1: failed to parse total pages: ''
           @ NumError_text ''Atoi'' '''' ErrSyntax), empty_world\<lparr>events := events empty_world @ [Fetch 1 100]\<rparr>)"
    using g1
    by (simp add: vectorizePostsPage_def fetchPostsPage_def demo_response_def Header_Get_def
          Atoi_def ParseInt_def wrap_def itoa_eval)
  from missing_total_pages_header [OF g1 a1, of empty_world]
       missing_total_pages_header [OF g2 a2, of empty_world] g1 g2 n2 e1
  show ?thesis
    by (simp add: demo_response_def empty_world_def)
qed

text \<open>
  Claim C10.  \<open>fetchPostsPage\<close> parses the \<open>X-WP-TotalPages\<close> header before it looks at
  the status code.  For a response whose status is not 200: when the header is absent or
  not numeric, the error returned is the \<open>failed to parse total pages\<close> error; and the
  status-code error is returned exactly when the header parses.
\<close>

theorem header_parsed_before_status:
  assumes "httpClient_Get i (posts_url (target i) hitsPerPage page) = Inr resp"
    and "StatusCode resp \<noteq> 200"
  shows "(\<not> numeric (Header_Get (Header resp) ''X-WP-TotalPages'') \<longrightarrow>
            (\<exists>e. fetchPostsPage i page hitsPerPage = Err (wrap ''failed to parse total pages'' e))) \<and>
         (fetchPostsPage i page hitsPerPage =
              Err (''failed to fetch posts, status code: '' @ itoa (StatusCode resp)) \<longleftrightarrow>
            (\<exists>n. Atoi (Header_Get (Header resp) ''X-WP-TotalPages'') = Inr n))"
proof (cases "Atoi (Header_Get (Header resp) ''X-WP-TotalPages'')")
  case (Inl e)
  with assms show ?thesis
    by (simp add: fetchPostsPage_def wrap_def)
next
  case (Inr n)
  with assms show ?thesis
    by (auto simp: fetchPostsPage_def dest: Atoi_numeric)
qed

theorem header_parsed_before_status_witness:
  "httpClient_Get (demo_importer [(1, demo_response 500 None ''ab'')] demo_embed 1)
     (posts_url (target (demo_importer [(1, demo_response 500 None ''ab'')] demo_embed 1)) 100 1) =
     Inr (demo_response 500 None ''ab'') \<and>
   StatusCode (demo_response 500 None ''ab'') \<noteq> 200 \<and>
   \<not> numeric (Header_Get (Header (demo_response 500 None ''ab'')) ''X-WP-TotalPages'') \<and>
   fetchPostsPage (demo_importer [(1, demo_response 500 None ''ab'')] demo_embed 1) 1 100 =
     Err (wrap ''failed to parse total pages'' (NumError_text ''Atoi'' '''' ErrSyntax)) \<and>
   httpClient_Get (demo_importer [(1, demo_response 500 (Some ''3'') ''ab'')] demo_embed 1)
     (posts_url (target (demo_importer [(1, demo_response 500 (Some ''3'') ''ab'')] demo_embed 1)) 100 1) =
     Inr (demo_response 500 (Some ''3'') ''ab'') \<and>
   StatusCode (demo_response 500 (Some ''3'') ''ab'') \<noteq> 200 \<and>
   Atoi (Header_Get (Header (demo_response 500 (Some ''3'') ''ab'')) ''X-WP-TotalPages'') = Inr 3 \<and>
   fetchPostsPage (demo_importer [(1, demo_response 500 (Some ''3'') ''ab'')] demo_embed 1) 1 100 =
     Err ''failed to fetch posts, status code: 500''"
proof -
  let ?i = "demo_importer [(1, demo_response 500 None ''ab'')] demo_embed 1"
  let ?j = "demo_importer [(1, demo_response 500 (Some ''3'') ''ab'')] demo_embed 1"
  have g1: "httpClient_Get ?i (posts_url (target ?i) 100 1) = Inr (demo_response 500 None ''ab'')"
    by (simp add: demo_importer_def demo_Get_def)
  have s1: "StatusCode (demo_response 500 None ''ab'') \<noteq> 200"
    by (simp add: demo_response_def)
  have n1: "\<not> numeric (Header_Get (Header (demo_response 500 None ''ab'')) ''X-WP-TotalPages'')"
    by (simp add: demo_response_def Header_Get_def numeric_def)
  have a1: "Atoi (Header_Get (Header (demo_response 500 None ''ab'')) ''X-WP-TotalPages'') =
      Inl (NumError_text ''Atoi'' '''' ErrSyntax)"
    by (simp add: demo_response_def Header_Get_def Atoi_def ParseInt_def)
  have g2: "httpClient_Get ?j (posts_url (target ?j) 100 1) = Inr (demo_response 500 (Some ''3'') ''ab'')"
    by (simp add: demo_importer_def demo_Get_def)
  have s2: "StatusCode (demo_response 500 (Some ''3'') ''ab'') \<noteq> 200"
    by (simp add: demo_response_def)
  have a2: "Atoi (Header_Get (Header (demo_response 500 (Some ''3'') ''ab'')) ''X-WP-TotalPages'') = Inr 3"
    by (simp add: demo_response_def Header_Get_def Atoi_def ParseInt_def ParseUint_def is_digit_def)
  have c2: "itoa (StatusCode (demo_response 500 (Some ''3'') ''ab'')) = ''500''"
    by (simp add: demo_response_def itoa_eval)
  from header_parsed_before_status [OF g1 s1] n1 a1
  have r1: "fetchPostsPage ?i 1 100 =
     Err (wrap ''failed to parse total pages'' (NumError_text ''Atoi'' '''' ErrSyntax))"
    using g1 by (auto simp: fetchPostsPage_def)
  from header_parsed_before_status [OF g2 s2] a2 c2
  have r2: "fetchPostsPage ?j 1 100 = Err ''failed to fetch posts, status code: 500''"
    by simp
  from g1 s1 n1 r1 g2 s2 a2 r2 show ?thesis by blast
qed

text \<open>
  Claim C9.  A page with no documents is not skipped.  \<open>vectorizePostsPage\<close> passes the
  empty list on to the vectorizer: when \<open>VectorizeBatch\<close> fails on the empty list, the page
  fails with that error, wrapped, and nothing is handed to the store.  With the production
  client as the vectorizer, which rejects the empty list, every empty page fails so.
\<close>

theorem empty_page_is_vectorized:
  assumes "fetchPostsPage i page hitsPerPage = Ok ([], nbPages)"
  shows "(\<forall>e. vectorizerClient_VectorizeBatch i [] = Err e \<longrightarrow>
            vectorizePostsPage i page hitsPerPage w =
              (Err (wrap ''failed to vectorize articles''
                     (wrap ''failed to vectorize articles in batch'' e)),
               w\<lparr>events := events w @ [Fetch page hitsPerPage]\<rparr>)) \<and>
         (vectorizerClient_VectorizeBatch i = client_VectorizeBatch c \<longrightarrow>
            vectorizePostsPage i page hitsPerPage w =
              (Err ''failed to vectorize articles: failed to vectorize articles in batch: texts cannot be empty'',
               w\<lparr>events := events w @ [Fetch page hitsPerPage]\<rparr>))"
  using assms
  by (simp add: vectorizePostsPage_def vectorizeArticles_def client_VectorizeBatch_def
        VectorizeBatch_def wrap_def)

theorem empty_page_is_vectorized_witness:
  "fetchPostsPage (demo_importer [(1, demo_response 200 (Some ''1'') '''')] (client_VectorizeBatch demo_client) 1) 1 100 =
     Ok ([], 1) \<and>
   vectorizerClient_VectorizeBatch
     (demo_importer [(1, demo_response 200 (Some ''1'') '''')] (client_VectorizeBatch demo_client) 1) [] =
     Err ''texts cannot be empty'' \<and>
   vectorizerClient_VectorizeBatch
     (demo_importer [(1, demo_response 200 (Some ''1'') '''')] (client_VectorizeBatch demo_client) 1) =
     client_VectorizeBatch demo_client \<and>
   fst (vectorizePostsPage
     (demo_importer [(1, demo_response 200 (Some ''1'') '''')] (client_VectorizeBatch demo_client) 1)
     1 100 empty_world) =
     Err ''failed to vectorize articles: failed to vectorize articles in batch: texts cannot be empty'' \<and>
   db (snd (vectorizePostsPage
     (demo_importer [(1, demo_response 200 (Some ''1'') '''')] (client_VectorizeBatch demo_client) 1)
     1 100 empty_world)) = empty_redis \<and>
   events (snd (vectorizePostsPage
     (demo_importer [(1, demo_response 200 (Some ''1'') '''')] (client_VectorizeBatch demo_client) 1)
     1 100 empty_world)) = [Fetch 1 100]"
proof -
  let ?i = "demo_importer [(1, demo_response 200 (Some ''1'') '''')] (client_VectorizeBatch demo_client) 1"
  have f: "fetchPostsPage ?i 1 100 = Ok ([], 1)"
    by (simp add: fetchPostsPage_def demo_importer_def demo_Get_def demo_response_def
          demo_Decode_def Header_Get_def Atoi_def ParseInt_def ParseUint_def is_digit_def)
  have v: "vectorizerClient_VectorizeBatch ?i [] = Err ''texts cannot be empty''"
    by (simp add: demo_importer_def client_VectorizeBatch_def VectorizeBatch_def)
  have p: "vectorizerClient_VectorizeBatch ?i = client_VectorizeBatch demo_client"
    by (simp add: demo_importer_def)
  from empty_page_is_vectorized [OF f, where c = demo_client and w = empty_world] f v p
  show ?thesis
    by (simp add: empty_world_def wrap_def)
qed

section \<open>Properties of the initial import\<close>

lemma Suc_length_remove1: "x \<in> set xs \<Longrightarrow> Suc (length (remove1 x xs)) = length xs"
  using length_pos_if_in_set [of x xs] by (simp add: length_remove1)



text \<open>An invariant of the steps is an invariant of the runs.\<close>

lemma run_invariant:
  assumes "\<And>g a g'. P g \<Longrightarrow> step i n g a = Some g' \<Longrightarrow> P g'"
    and "P g" and "run i n g as = Some g'"
  shows "P g'"
  using assms(2,3)
proof (induction as arbitrary: g)
  case Nil
  then show ?case by simp
next
  case (Cons a as)
  then show ?case
    by (auto split: option.splits intro: assms(1))
qed

text \<open>What a step is, by the kind of the step.\<close>

lemma step_Go_Some:
  "step i n g Go = Some g' \<Longrightarrow>
     \<not> crashed g \<and> next_page g \<le> n \<and> room (maxGoroutines i) (in_flight g) \<and>
     g' = g\<lparr>running := running g @ [next_page g], next_page := next_page g + 1\<rparr>"
  by (auto split: if_splits)

lemma step_Work_Some:
  "step i n g (Work p) = Some g' \<Longrightarrow>
     \<not> crashed g \<and> p \<in> set (running g) \<and>
     (case fst (vectorizePostsPage i p 100 (world g)) of
        Panic \<Rightarrow> g' = g\<lparr>crashed := True, world := snd (vectorizePostsPage i p 100 (world g))\<rparr>
      | Err e \<Rightarrow> g' = g\<lparr>running := remove1 p (running g), returned := returned g @ [(p, Some e)],
                        world := snd (vectorizePostsPage i p 100 (world g))\<rparr>
      | Ok k \<Rightarrow> g' = g\<lparr>running := remove1 p (running g), returned := returned g @ [(p, None)],
                        world := snd (vectorizePostsPage i p 100 (world g))\<rparr>)"
  by (auto split: if_splits prod.splits result.splits)

lemma step_Done_Some:
  "step i n g (Done p) = Some g' \<Longrightarrow>
     \<not> crashed g \<and>
     (\<exists>r. (p, r) \<in> set (returned g) \<and> map_of (returned g) p = Some r \<and>
        g' = g\<lparr>returned := remove1 (p, r) (returned g),
               group_err := (case group_err g of None \<Rightarrow> r | Some e \<Rightarrow> Some e),
               world := (world g)\<lparr>events := events (world g) @ [Return p r]\<rparr>\<rparr>)"
  by (auto split: if_splits option.splits dest: map_of_SomeD)

declare step.simps [simp del]

lemma step_in_flight:
  assumes "step i n g a = Some g'" and "0 \<le> maxGoroutines i"
    and "int (in_flight g) \<le> maxGoroutines i"
  shows "int (in_flight g') \<le> maxGoroutines i"
proof (cases a)
  case Go
  with assms show ?thesis
    by (auto simp: in_flight_def room_def dest!: step_Go_Some)
next
  case (Work p)
  with assms(1) have p: "p \<in> set (running g)" and
    c: "(case fst (vectorizePostsPage i p 100 (world g)) of
        Panic \<Rightarrow> g' = g\<lparr>crashed := True, world := snd (vectorizePostsPage i p 100 (world g))\<rparr>
      | Err e \<Rightarrow> g' = g\<lparr>running := remove1 p (running g), returned := returned g @ [(p, Some e)],
                        world := snd (vectorizePostsPage i p 100 (world g))\<rparr>
      | Ok k \<Rightarrow> g' = g\<lparr>running := remove1 p (running g), returned := returned g @ [(p, None)],
                        world := snd (vectorizePostsPage i p 100 (world g))\<rparr>)"
    by (auto dest!: step_Work_Some)
  from Suc_length_remove1 [OF p] c have "in_flight g' = in_flight g"
    by (auto simp: in_flight_def split: result.splits)
  with assms(3) show ?thesis by simp
next
  case (Done p)
  with assms(1) obtain r where "(p, r) \<in> set (returned g)"
    "g' = g\<lparr>returned := remove1 (p, r) (returned g),
               group_err := (case group_err g of None \<Rightarrow> r | Some e \<Rightarrow> Some e),
               world := (world g)\<lparr>events := events (world g) @ [Return p r]\<rparr>\<rparr>"
    by (auto dest!: step_Done_Some)
  with Suc_length_remove1 [of "(p, r)" "returned g"] have "Suc (in_flight g') = in_flight g"
    by (simp add: in_flight_def)
  with assms(3) show ?thesis by simp
qed

lemma run_in_flight:
  assumes "run i n (start w) as = Some g" and "0 \<le> maxGoroutines i"
  shows "int (in_flight g) \<le> maxGoroutines i"
proof -
  have "int (in_flight (start w)) \<le> maxGoroutines i"
    using assms(2) by (simp add: in_flight_def start_def)
  with run_invariant [where P = "\<lambda>g. int (in_flight g) \<le> maxGoroutines i", OF _ _ assms(1)]
    step_in_flight assms(2)
  show ?thesis by blast
qed


lemma vectorizePostsPage_cases:
  "vectorizePostsPage i p h w =
     (case page_articles i p h of
        Panic \<Rightarrow> (Panic, w\<lparr>events := events w @ [Fetch p h]\<rparr>)
      | Err e \<Rightarrow> (Err e, w\<lparr>events := events w @ [Fetch p h]\<rparr>)
      | Ok articles \<Rightarrow>
          (case store_StoreArticles i (db w) articles of
             (Some e, st') \<Rightarrow>
               (Err (wrap ''failed to store articles'' (wrap ''failed to store articles'' e)),
                w\<lparr>db := st', events := events w @ [Fetch p h, Store p articles]\<rparr>)
           | (None, st') \<Rightarrow>
               (Ok (page_total i p h),
                w\<lparr>db := st', events := events w @ [Fetch p h, Store p articles]\<rparr>)))"
  by (auto simp: vectorizePostsPage_def page_articles_def page_total_def storeArticles_def Let_def
           split: result.splits prod.splits option.splits)





lemma client_keeps_contract: "keeps_contract (client_VectorizeBatch c)"
  unfolding keeps_contract_def client_VectorizeBatch_def
proof
  fix texts
  show "case fst (VectorizeBatch c texts) of Panic \<Rightarrow> False | Err e \<Rightarrow> True
        | Ok embeddings \<Rightarrow> length embeddings \<le> length texts"
    using VectorizeBatch_no_Panic [of c texts] VectorizeBatch_Ok_length [of c texts]
    by (cases "fst (VectorizeBatch c texts)") auto
qed

lemma step_not_crashed: "step i n g a = Some g' \<Longrightarrow> \<not> crashed g"
  by (cases a) (auto dest: step_Go_Some step_Work_Some step_Done_Some)







lemma fetches_append: "fetches (xs @ ys) = fetches xs @ fetches ys"
  by (induction xs rule: fetches.induct) auto

lemma stores_append: "stores (xs @ ys) = stores xs @ stores ys"
  by (induction xs rule: stores.induct) auto

lemma returns_append: "returns (xs @ ys) = returns xs @ returns ys"
  by (induction xs rule: returns.induct) auto

lemma first_error_snoc:
  "first_error (rs @ [(p, r)]) = (case first_error rs of None \<Rightarrow> r | Some e \<Rightarrow> Some e)"
proof (induction rs rule: first_error.induct)
  case 1
  then show ?case by (cases r) auto
qed auto

lemma of_page_append: "of_page p (xs @ ys) = of_page p xs @ of_page p ys"
  by (simp add: of_page_def)

lemma mset_set_next: "(2::int) \<le> k \<Longrightarrow> mset_set {2..<k + 1} = add_mset k (mset_set {2..<k})"
proof -
  assume "2 \<le> k"
  then have "{2..<k + 1} = insert k {2..<k}" by auto
  then show ?thesis by simp
qed

lemma mset_map_fst_remove1:
  "(p, r) \<in> set xs \<Longrightarrow> add_mset p (mset (map fst (remove1 (p, r) xs))) = mset (map fst xs)"
proof (induction xs)
  case Nil
  then show ?case by simp
next
  case (Cons x xs)
  then show ?case by (cases "x = (p, r)") auto
qed

lemma mset_remove1_add: "p \<in> set xs \<Longrightarrow> add_mset p (mset (remove1 p xs)) = mset xs"
  by simp

lemma not_worked_if_running:
  assumes "mset (running g) + worked g evs = mset_set {2..<next_page g}" and "p \<in> set (running g)"
  shows "p \<notin># worked g evs"
proof
  assume "p \<in># worked g evs"
  then have a: "0 < count (worked g evs) p" by simp
  from assms(2) have b: "0 < count (mset (running g)) p" by simp
  have "count (mset_set {2..<next_page g}) p = count (mset (running g)) p + count (worked g evs) p"
    by (simp flip: assms(1))
  with a b have "2 \<le> count (mset_set {2..<next_page g}) p" by linarith
  then show False by (simp add: count_mset_set' split: if_splits)
qed

lemma vectorizePostsPage_events:
  "events (snd (vectorizePostsPage i p h w)) =
     events w @ Fetch p h # (case page_articles i p h of Ok a \<Rightarrow> [Store p a] | _ \<Rightarrow> [])"
  by (auto simp: vectorizePostsPage_cases split: result.splits prod.splits option.splits)

lemma books_Go:
  assumes "step i n g Go = Some g'" and "books i n g evs"
  shows "books i n g' evs"
proof -
  from assms(1) have le: "next_page g \<le> n" and
    g': "g' = g\<lparr>running := running g @ [next_page g], next_page := next_page g + 1\<rparr>"
    by (auto dest!: step_Go_Some)
  from g' have w: "worked g' evs = worked g evs" by (simp add: worked_def)
  from assms(2) have two: "2 \<le> next_page g" by (simp add: books_def)
  from assms(2) have "mset (running g) + worked g evs = mset_set {2..<next_page g}"
    by (simp add: books_def)
  with g' w mset_set_next [OF two]
  have m: "mset (running g') + worked g' evs = mset_set {2..<next_page g'}"
    by simp
  from g' le two have b: "2 \<le> next_page g' \<and> next_page g' \<le> max 2 (n + 1)"
    by simp
  from assms(2) g' have "group_err g' = first_error (returns evs)"
    by (simp add: books_def)
  with assms(2) w m b show ?thesis
    by (simp add: books_def)
qed

lemma books_Work:
  assumes "step i n g (Work p) = Some g'" and "\<not> crashed g'"
    and "events (world g) = events w @ evs" and "books i n g evs"
  shows "\<exists>evs'. events (world g') = events w @ evs' \<and> books i n g' evs'"
proof -
  let ?tail = "Fetch p 100 # (case page_articles i p 100 of Ok a \<Rightarrow> [Store p a] | _ \<Rightarrow> [])"
  from assms(1) have p: "p \<in> set (running g)" and
    c: "(case fst (vectorizePostsPage i p 100 (world g)) of
        Panic \<Rightarrow> g' = g\<lparr>crashed := True, world := snd (vectorizePostsPage i p 100 (world g))\<rparr>
      | Err e \<Rightarrow> g' = g\<lparr>running := remove1 p (running g), returned := returned g @ [(p, Some e)],
                        world := snd (vectorizePostsPage i p 100 (world g))\<rparr>
      | Ok k \<Rightarrow> g' = g\<lparr>running := remove1 p (running g), returned := returned g @ [(p, None)],
                        world := snd (vectorizePostsPage i p 100 (world g))\<rparr>)"
    by (auto dest!: step_Work_Some)
  from c assms(2) obtain r where
    g': "g' = g\<lparr>running := remove1 p (running g), returned := returned g @ [(p, r)],
               world := snd (vectorizePostsPage i p 100 (world g))\<rparr>"
    by (auto split: result.splits)
  from g' assms(3) have ev: "events (world g') = events w @ (evs @ ?tail)"
    by (simp add: vectorizePostsPage_events)
  have f: "fetches (evs @ ?tail) = fetches evs @ [(p, 100)]"
    by (simp add: fetches_append split: result.splits)
  have s: "stores (evs @ ?tail) = stores evs @ page_stores i p"
    by (simp add: stores_append page_stores_def split: result.splits)
  have r: "returns (evs @ ?tail) = returns evs"
    by (simp add: returns_append split: result.splits)
  from g' r have w: "worked g' (evs @ ?tail) = add_mset p (worked g evs)"
    by (simp add: worked_def)
  from assms(4) have m: "mset (running g) + worked g evs = mset_set {2..<next_page g}"
    by (simp add: books_def)
  from not_worked_if_running [OF m p] have fresh: "p \<notin># worked g evs" .
  from g' w m p have m': "mset (running g') + worked g' (evs @ ?tail) = mset_set {2..<next_page g'}"
    by (simp flip: m)
  from assms(4) g' have b: "2 \<le> next_page g' \<and> next_page g' \<le> max 2 (n + 1)"
    by (simp add: books_def)
  have pf: "of_page q (fetches (evs @ ?tail)) =
      (if q \<in># worked g' (evs @ ?tail) then [(q, 100)] else [])" for q
  proof -
    from assms(4) have "of_page q (fetches evs) = (if q \<in># worked g evs then [(q, 100)] else [])"
      by (simp add: books_def)
    with fresh show ?thesis
      by (auto simp: f w of_page_append) (auto simp: of_page_def)
  qed
  have ps: "of_page q (stores (evs @ ?tail)) =
      (if q \<in># worked g' (evs @ ?tail) then page_stores i q else [])" for q
  proof -
    from assms(4) have "of_page q (stores evs) = (if q \<in># worked g evs then page_stores i q else [])"
      by (simp add: books_def)
    with fresh show ?thesis
      by (auto simp: s w of_page_append)
         (auto simp: of_page_def page_stores_def split: result.splits)
  qed
  from assms(4) g' r have e: "group_err g' = first_error (returns (evs @ ?tail))"
    by (simp add: books_def)
  from b m' pf ps e have "books i n g' (evs @ ?tail)"
    by (simp add: books_def)
  with ev show ?thesis by blast
qed

lemma books_Done:
  assumes "step i n g (Done p) = Some g'"
    and "events (world g) = events w @ evs" and "books i n g evs"
  shows "\<exists>evs'. events (world g') = events w @ evs' \<and> books i n g' evs'"
proof -
  from assms(1) obtain r where r: "(p, r) \<in> set (returned g)" and
    g': "g' = g\<lparr>returned := remove1 (p, r) (returned g),
               group_err := (case group_err g of None \<Rightarrow> r | Some e \<Rightarrow> Some e),
               world := (world g)\<lparr>events := events (world g) @ [Return p r]\<rparr>\<rparr>"
    by (auto dest!: step_Done_Some)
  let ?evs = "evs @ [Return p r]"
  from g' assms(2) have ev: "events (world g') = events w @ ?evs" by simp
  have f: "fetches ?evs = fetches evs" and s: "stores ?evs = stores evs"
    and rt: "returns ?evs = returns evs @ [(p, r)]"
    by (simp_all add: fetches_append stores_append returns_append)
  from g' rt mset_map_fst_remove1 [OF r] have w: "worked g' ?evs = worked g evs"
    by (simp add: worked_def flip: mset_map_fst_remove1 [OF r])
  from assms(3) g' rt have e: "group_err g' = first_error (returns ?evs)"
    by (simp add: books_def first_error_snoc)
  from assms(3) g' have "2 \<le> next_page g' \<and> next_page g' \<le> max 2 (n + 1) \<and>
      mset (running g') + worked g evs = mset_set {2..<next_page g'}"
    by (simp add: books_def)
  with assms(3) e have "books i n g' ?evs"
    by (simp add: books_def f s w)
  with ev show ?thesis by blast
qed

lemma step_books:
  assumes "step i n g a = Some g'" and "\<not> crashed g'"
    and "events (world g) = events w @ evs" and "books i n g evs"
  shows "\<exists>evs'. events (world g') = events w @ evs' \<and> books i n g' evs'"
proof (cases a)
  case Go
  with assms(1) have "world g' = world g" by (auto dest!: step_Go_Some)
  with Go assms books_Go [of i n g g' evs] show ?thesis by auto
next
  case (Work p)
  with assms books_Work show ?thesis by blast
next
  case (Done p)
  with assms books_Done show ?thesis by blast
qed

lemma books_start: "books i n (start w) []"
  by (simp add: books_def start_def worked_def of_page_def)

lemma run_books:
  assumes "run i n (start w) as = Some g" and "\<not> crashed g"
  shows "\<exists>evs. events (world g) = events w @ evs \<and> books i n g evs"
proof -
  let ?P = "\<lambda>g. crashed g \<or> (\<exists>evs. events (world g) = events w @ evs \<and> books i n g evs)"
  have "?P g' " if "?P g0" "step i n g0 a = Some g'" for g0 a g'
    using that step_not_crashed [OF that(2)] step_books [OF that(2), of w] by blast
  moreover have "?P (start w)"
    using books_start [of i n w] by (simp add: start_def)
  ultimately have "?P g"
    using run_invariant [where P = ?P, OF _ _ assms(1)] by blast
  with assms(2) show ?thesis by blast
qed










lemma books_finished:
  assumes "books i n g evs" and "finished n g"
  shows "worked g evs = mset_set {2..n}" and "mset (map fst (returns evs)) = mset_set {2..n}"
proof -
  from assms have np: "next_page g = max 2 (n + 1)"
    by (auto simp: books_def finished_def)
  then have "{2..<next_page g} = {2..n}" by auto
  with assms show "worked g evs = mset_set {2..n}"
    by (simp add: books_def finished_def)
  with assms(2) show "mset (map fst (returns evs)) = mset_set {2..n}"
    by (simp add: worked_def finished_def)
qed

lemma initialImport_Ok:
  assumes "vectorizePostsPage i 1 100 w = (Ok n, w1)" and "initialImport i sched w = Some (r, w')"
    and "r \<noteq> Panic"
  shows "\<exists>g. run i n (start w1) sched = Some g \<and> \<not> crashed g \<and> finished n g \<and> w' = world g \<and>
           r = (case group_err g of None \<Rightarrow> Ok ()
                | Some e \<Rightarrow> Err (wrap ''error during initial import'' e))"
  using assms
  by (auto simp: initialImport_def split: option.splits if_splits)



lemma first_page_events:
  assumes "vectorizePostsPage i 1 100 w = (Ok n, w1)"
  shows "\<exists>a. page_articles i 1 100 = Ok a \<and> events w1 = events w @ [Fetch 1 100, Store 1 a]"
  using assms
  by (auto simp: vectorizePostsPage_cases split: result.splits prod.splits option.splits)

lemma of_page_Cons: "of_page p (x # xs) = (if fst x = p then [x] else []) @ of_page p xs"
  by (simp add: of_page_def)


section \<open>Properties of the search handler\<close>

text \<open>
  Claim C4 says that every POST request whose body decodes to an empty query text gets a
  200 result set.  It fails with the production vectorizer: \<open>Vectorize\<close> rejects the empty
  text, and the handler answers 500.
\<close>

theorem handleSearch_empty_query_fails:
  "Method empty_query = ''POST'' \<and>
   json_DecodeRequest (demo_server (client_Vectorize demo_client)) (req_Body empty_query) = Inr '''' \<and>
   handleSearch (demo_server (client_Vectorize demo_client)) empty_query =
     Ok \<lparr>status = 500, contentType = ''text/plain; charset=utf-8'',
        content = ''Failed to generate query embedding'' @ [CHR 0x0A]\<rparr>"
  by (simp add: handleSearch_def demo_server_def empty_query_def client_Vectorize_def
        Vectorize_def http_Error_def)

text \<open>
  Claim C4, amended.  For a POST request whose body decodes to an empty query text, the
  handler does not reject the text itself but passes it to \<open>Vectorize\<close>.  When \<open>Vectorize\<close>
  fails, as the production client does on the empty text, the response is the 500 error
  \<open>Failed to generate query embedding\<close>; when \<open>Vectorize\<close> returns an embedding and the
  search and the encoding succeed, the response is the 200 result set, whose count is the
  number of hits.
\<close>

theorem handleSearch_empty_query:
  assumes "Method r = ''POST''" and "json_DecodeRequest s (req_Body r) = Inr ''''"
  shows "(\<forall>e. vectorizerClient_Vectorize s '''' = Err e \<longrightarrow>
            handleSearch s r = Ok (http_Error ''Failed to generate query embedding'' 500)) \<and>
         (vectorizerClient_Vectorize s = client_Vectorize c \<longrightarrow>
            handleSearch s r = Ok (http_Error ''Failed to generate query embedding'' 500)) \<and>
         (\<forall>emb hits text.
            vectorizerClient_Vectorize s '''' = Ok emb \<and> store_VectorSearch s emb 10 = Inr hits \<and>
            json_Encode s \<lparr>Results = map to_SearchResult hits, Count = int (length hits)\<rparr> = Inr text \<longrightarrow>
            handleSearch s r = Ok \<lparr>status = 200, contentType = ''application/json'', content = text\<rparr>)"
  using assms
  by (simp add: handleSearch_def client_Vectorize_def Vectorize_def)

theorem handleSearch_empty_query_witness:
  "Method empty_query = ''POST'' \<and>
   json_DecodeRequest (demo_server (client_Vectorize demo_client)) (req_Body empty_query) = Inr '''' \<and>
   vectorizerClient_Vectorize (demo_server (client_Vectorize demo_client)) '''' = Err ''text cannot be empty'' \<and>
   vectorizerClient_Vectorize (demo_server (client_Vectorize demo_client)) = client_Vectorize demo_client \<and>
   handleSearch (demo_server (client_Vectorize demo_client)) empty_query =
     Ok (http_Error ''Failed to generate query embedding'' 500) \<and>
   json_DecodeRequest (demo_server (\<lambda>text. Ok ''test-embedding'')) (req_Body empty_query) = Inr '''' \<and>
   vectorizerClient_Vectorize (demo_server (\<lambda>text. Ok ''test-embedding'')) '''' = Ok ''test-embedding'' \<and>
   store_VectorSearch (demo_server (\<lambda>text. Ok ''test-embedding'')) ''test-embedding'' 10 = Inr [] \<and>
   json_Encode (demo_server (\<lambda>text. Ok ''test-embedding''))
     \<lparr>Results = map to_SearchResult [], Count = int (length [])\<rparr> = Inr ''count=0'' \<and>
   handleSearch (demo_server (\<lambda>text. Ok ''test-embedding'')) empty_query =
     Ok \<lparr>status = 200, contentType = ''application/json'', content = ''count=0''\<rparr>"
proof -
  let ?p = "demo_server (client_Vectorize demo_client)"
  let ?m = "demo_server (\<lambda>text. Ok ''test-embedding'')"
  have m: "Method empty_query = ''POST''"
    by (simp add: empty_query_def)
  have d1: "json_DecodeRequest ?p (req_Body empty_query) = Inr ''''"
    by (simp add: demo_server_def empty_query_def)
  have v1: "vectorizerClient_Vectorize ?p '''' = Err ''text cannot be empty''"
    by (simp add: demo_server_def client_Vectorize_def Vectorize_def)
  have p1: "vectorizerClient_Vectorize ?p = client_Vectorize demo_client"
    by (simp add: demo_server_def)
  have d2: "json_DecodeRequest ?m (req_Body empty_query) = Inr ''''"
    by (simp add: demo_server_def empty_query_def)
  have v2: "vectorizerClient_Vectorize ?m '''' = Ok ''test-embedding''"
    by (simp add: demo_server_def)
  have s2: "store_VectorSearch ?m ''test-embedding'' 10 = Inr []"
    by (simp add: demo_server_def)
  have e2: "json_Encode ?m \<lparr>Results = map to_SearchResult [], Count = int (length [])\<rparr> = Inr ''count=0''"
    by (simp add: demo_server_def itoa_eval)
  from handleSearch_empty_query [OF m d1, where c = demo_client] v1
  have r1: "handleSearch ?p empty_query = Ok (http_Error ''Failed to generate query embedding'' 500)"
    by blast
  from handleSearch_empty_query [OF m d2, where c = demo_client] v2 s2 e2
  have r2: "handleSearch ?m empty_query =
      Ok \<lparr>status = 200, contentType = ''application/json'', content = ''count=0''\<rparr>"
    by blast
  from m d1 v1 p1 r1 d2 v2 s2 e2 r2 show ?thesis by blast
qed

section \<open>The examples, evaluated\<close>

lemma demo_url: "posts_url ''http://wp'' 100 p =
    ''http://wp/wp-json/wp/v2/posts?_fields=title,excerpt,link&per_page=100&page='' @ itoa p"
  by (simp add: posts_url_def itoa_eval)

lemma demo_Get_site:
  "demo_Get demo_site (posts_url ''http://wp'' 100 1) = Inr (demo_response 200 (Some ''5'') ''a'')"
  "demo_Get demo_site (posts_url ''http://wp'' 100 2) = Inr (demo_response 200 (Some ''5'') ''b'')"
  "demo_Get demo_site (posts_url ''http://wp'' 100 3) = Inl ''connection refused''"
  "demo_Get demo_site (posts_url ''http://wp'' 100 4) = Inr (demo_response 200 (Some ''5'') ''d'')"
  "demo_Get demo_site (posts_url ''http://wp'' 100 5) = Inr (demo_response 200 (Some ''5'') ''e'')"
  by (simp_all add: demo_Get_def demo_site_def demo_url itoa_eval)

lemma demo_fetch_ok:
  "httpClient_Get i (posts_url (target i) 100 p) = Inr (demo_response 200 (Some ''5'') [c]) \<Longrightarrow>
   json_Decode i = demo_Decode \<Longrightarrow>
   fetchPostsPage i p 100 = Ok ([demo_post [c]], 5)"
  by (simp add: fetchPostsPage_def demo_response_def Header_Get_def Atoi_eval demo_Decode_def)

lemma demo_page_articles:
  "page_articles demo_run 1 100 = Ok [demo_article ''a'']"
  "page_articles demo_run 2 100 = Ok [demo_article ''b'']"
  "page_articles demo_run 3 100 =
     Err ''failed to fetch posts for page 3: failed to create request: connection refused''"
  "page_articles demo_run 4 100 = Ok [demo_article ''d'']"
  "page_articles demo_run 5 100 = Ok [demo_article ''e'']"
proof -
  have t: "target demo_run = ''http://wp''" "httpClient_Get demo_run = demo_Get demo_site"
    "json_Decode demo_run = demo_Decode" "vectorizerClient_VectorizeBatch demo_run = demo_embed"
    by (simp_all add: demo_run_def demo_importer_def)
  have v: "vectorizeArticles demo_run [post_Article (demo_post [c])] =
      Ok [\<lparr>va_Article = \<lparr>Title = [c], Description = ''text'', Link = ''http://wp/'' @ [c]\<rparr>,
           va_Embedding = ''v:'' @ [c]\<rparr>]" for c
    by (simp add: vectorizeArticles_def t demo_embed_def post_Article_def demo_post_def
          rendered_def article_text_def)
  show "page_articles demo_run 1 100 = Ok [demo_article ''a'']"
    by (simp add: page_articles_def demo_fetch_ok t demo_Get_site v to_store_Article_def
          demo_article_def)
  show "page_articles demo_run 2 100 = Ok [demo_article ''b'']"
    by (simp add: page_articles_def demo_fetch_ok t demo_Get_site v to_store_Article_def
          demo_article_def)
  show "page_articles demo_run 4 100 = Ok [demo_article ''d'']"
    by (simp add: page_articles_def demo_fetch_ok t demo_Get_site v to_store_Article_def
          demo_article_def)
  show "page_articles demo_run 5 100 = Ok [demo_article ''e'']"
    by (simp add: page_articles_def demo_fetch_ok t demo_Get_site v to_store_Article_def
          demo_article_def)
  show "page_articles demo_run 3 100 =
     Err ''failed to fetch posts for page 3: failed to create request: connection refused''"
    by (simp add: page_articles_def fetchPostsPage_def t demo_Get_site wrap_def itoa_eval)
qed

lemma StoreArticles_no_fault:
  "faults r = (\<lambda>n. None) \<Longrightarrow>
   StoreArticles r [a] =
     (None, r\<lparr>hashes := serve (article_HSet a) (hashes r),
               pipelines := pipelines r @ [[article_HSet a]]\<rparr>)"
  by (simp add: StoreArticles_def pipe_Exec_def)

lemma demo_page_total: "page_total demo_run 1 100 = 5"
  by (simp add: page_total_def demo_fetch_ok demo_run_def demo_importer_def demo_Get_site)

lemma demo_work:
  assumes "faults (db w) = (\<lambda>n. None)"
  shows "vectorizePostsPage demo_run 1 100 w =
      (Ok 5, w\<lparr>db := (db w)\<lparr>hashes := serve (article_HSet (demo_article ''a'')) (hashes (db w)),
                  pipelines := pipelines (db w) @ [[article_HSet (demo_article ''a'')]]\<rparr>,
               events := events w @ [Fetch 1 100, Store 1 [demo_article ''a'']]\<rparr>)"
    and "fst (vectorizePostsPage demo_run 2 100 w) = Ok (page_total demo_run 2 100)"
    and "snd (vectorizePostsPage demo_run 2 100 w) =
      w\<lparr>db := (db w)\<lparr>hashes := serve (article_HSet (demo_article ''b'')) (hashes (db w)),
                  pipelines := pipelines (db w) @ [[article_HSet (demo_article ''b'')]]\<rparr>,
               events := events w @ [Fetch 2 100, Store 2 [demo_article ''b'']]\<rparr>"
    and "vectorizePostsPage demo_run 3 100 w =
      (Err ''failed to fetch posts for page 3: failed to create request: connection refused'',
       w\<lparr>events := events w @ [Fetch 3 100]\<rparr>)"
    and "fst (vectorizePostsPage demo_run 4 100 w) = Ok (page_total demo_run 4 100)"
    and "snd (vectorizePostsPage demo_run 4 100 w) =
      w\<lparr>db := (db w)\<lparr>hashes := serve (article_HSet (demo_article ''d'')) (hashes (db w)),
                  pipelines := pipelines (db w) @ [[article_HSet (demo_article ''d'')]]\<rparr>,
               events := events w @ [Fetch 4 100, Store 4 [demo_article ''d'']]\<rparr>"
    and "fst (vectorizePostsPage demo_run 5 100 w) = Ok (page_total demo_run 5 100)"
    and "snd (vectorizePostsPage demo_run 5 100 w) =
      w\<lparr>db := (db w)\<lparr>hashes := serve (article_HSet (demo_article ''e'')) (hashes (db w)),
                  pipelines := pipelines (db w) @ [[article_HSet (demo_article ''e'')]]\<rparr>,
               events := events w @ [Fetch 5 100, Store 5 [demo_article ''e'']]\<rparr>"
proof -
  have s: "store_StoreArticles demo_run = StoreArticles"
    by (simp add: demo_run_def demo_importer_def)
  show "vectorizePostsPage demo_run 1 100 w =
      (Ok 5, w\<lparr>db := (db w)\<lparr>hashes := serve (article_HSet (demo_article ''a'')) (hashes (db w)),
                  pipelines := pipelines (db w) @ [[article_HSet (demo_article ''a'')]]\<rparr>,
               events := events w @ [Fetch 1 100, Store 1 [demo_article ''a'']]\<rparr>)"
    by (simp add: vectorizePostsPage_cases demo_page_articles s StoreArticles_no_fault [OF assms]
          demo_page_total)
  show "fst (vectorizePostsPage demo_run 2 100 w) = Ok (page_total demo_run 2 100)"
    by (simp add: vectorizePostsPage_cases demo_page_articles s StoreArticles_no_fault [OF assms])
  show "fst (vectorizePostsPage demo_run 4 100 w) = Ok (page_total demo_run 4 100)"
    by (simp add: vectorizePostsPage_cases demo_page_articles s StoreArticles_no_fault [OF assms])
  show "fst (vectorizePostsPage demo_run 5 100 w) = Ok (page_total demo_run 5 100)"
    by (simp add: vectorizePostsPage_cases demo_page_articles s StoreArticles_no_fault [OF assms])
  show "snd (vectorizePostsPage demo_run 2 100 w) =
      w\<lparr>db := (db w)\<lparr>hashes := serve (article_HSet (demo_article ''b'')) (hashes (db w)),
                  pipelines := pipelines (db w) @ [[article_HSet (demo_article ''b'')]]\<rparr>,
               events := events w @ [Fetch 2 100, Store 2 [demo_article ''b'']]\<rparr>"
    by (simp add: vectorizePostsPage_cases demo_page_articles s StoreArticles_no_fault [OF assms])
  show "snd (vectorizePostsPage demo_run 4 100 w) =
      w\<lparr>db := (db w)\<lparr>hashes := serve (article_HSet (demo_article ''d'')) (hashes (db w)),
                  pipelines := pipelines (db w) @ [[article_HSet (demo_article ''d'')]]\<rparr>,
               events := events w @ [Fetch 4 100, Store 4 [demo_article ''d'']]\<rparr>"
    by (simp add: vectorizePostsPage_cases demo_page_articles s StoreArticles_no_fault [OF assms])
  show "snd (vectorizePostsPage demo_run 5 100 w) =
      w\<lparr>db := (db w)\<lparr>hashes := serve (article_HSet (demo_article ''e'')) (hashes (db w)),
                  pipelines := pipelines (db w) @ [[article_HSet (demo_article ''e'')]]\<rparr>,
               events := events w @ [Fetch 5 100, Store 5 [demo_article ''e'']]\<rparr>"
    by (simp add: vectorizePostsPage_cases demo_page_articles s StoreArticles_no_fault [OF assms])
  show "vectorizePostsPage demo_run 3 100 w =
      (Err ''failed to fetch posts for page 3: failed to create request: connection refused'',
       w\<lparr>events := events w @ [Fetch 3 100]\<rparr>)"
    by (simp add: vectorizePostsPage_cases demo_page_articles)
qed

lemma split_pair_result: "(case p of (a, b) \<Rightarrow> f a b) = f (fst p) (snd p)"
  by (simp add: case_prod_beta)

lemma demo_initialImport:
  "initialImport demo_run demo_schedule empty_world =
     Some (Err ''error during initial import: failed to fetch posts for page 3: failed to create request: connection refused'',
           demo_end)"
  by (simp add: initialImport_def demo_work empty_world_def empty_redis_def demo_schedule_def
        start_def step.simps finished_def room_def in_flight_def demo_end_def wrap_def
        split_pair_result)
     (simp add: demo_run_def demo_importer_def)

lemma demo_first: "vectorizePostsPage demo_run 1 100 empty_world = (Ok 5, demo_first)"
  by (simp add: demo_work empty_world_def empty_redis_def demo_first_def)


lemma demo_Get_site2:
  "demo_Get demo_site2 (posts_url ''http://wp'' 100 1) = Inr (demo_response 200 (Some ''2'') ''a'')"
  "demo_Get demo_site2 (posts_url ''http://wp'' 100 2) = Inr (demo_response 200 (Some ''2'') ''b'')"
  by (simp_all add: demo_Get_def demo_site2_def demo_url itoa_eval)

lemma demo_fetch2:
  "fetchPostsPage demo_run2 1 100 = Ok ([demo_post ''a''], 2)"
  "fetchPostsPage demo_run2 2 100 = Ok ([demo_post ''b''], 2)"
  by (simp_all add: fetchPostsPage_def demo_run2_def demo_importer_def demo_Get_site2
        demo_response_def Header_Get_def Atoi_eval demo_Decode_def)

lemma demo_page_articles2:
  "page_articles demo_run2 1 100 = Ok [demo_article ''a'']"
  "page_articles demo_run2 2 100 =
     Err ''failed to vectorize articles: failed to vectorize articles in batch: vectorizer down''"
proof -
  have t: "vectorizerClient_VectorizeBatch demo_run2 = demo_embed2"
    by (simp add: demo_run2_def demo_importer_def)
  show "page_articles demo_run2 1 100 = Ok [demo_article ''a'']"
    by (simp add: page_articles_def demo_fetch2 vectorizeArticles_def t demo_embed2_def
          demo_embed_def post_Article_def demo_post_def rendered_def article_text_def
          to_store_Article_def demo_article_def)
  show "page_articles demo_run2 2 100 =
     Err ''failed to vectorize articles: failed to vectorize articles in batch: vectorizer down''"
    by (simp add: page_articles_def demo_fetch2 vectorizeArticles_def t demo_embed2_def
          post_Article_def demo_post_def rendered_def article_text_def wrap_def)
qed

lemma demo_initialImport2:
  "initialImport demo_run2 [Go, Work 2, Done 2] empty_world =
     Some (Err ''error during initial import: failed to vectorize articles: failed to vectorize articles in batch: vectorizer down'',
           demo_end2)"
proof -
  have s: "store_StoreArticles demo_run2 = StoreArticles" "maxGoroutines demo_run2 = 2"
    by (simp_all add: demo_run2_def demo_importer_def)
  have t: "page_total demo_run2 1 100 = 2"
    by (simp add: page_total_def demo_fetch2)
  show ?thesis
    by (simp add: initialImport_def vectorizePostsPage_cases demo_page_articles2 s t
          StoreArticles_no_fault empty_world_def empty_redis_def start_def step.simps
          finished_def room_def in_flight_def demo_end2_def wrap_def)
qed


text \<open>
  Claim C2 says that each page from 1 to the number of pages is fetched and its documents
  stored exactly once.  It fails for a page whose task fails: in the import of the two
  pages, page 2 is fetched once, with its document, and the vectorizer fails on it; the
  document is never handed to the store and is not in it at the end.
\<close>

theorem failed_page_is_not_stored:
  "1 \<le> maxGoroutines demo_run2 \<and>
   fst (vectorizePostsPage demo_run2 1 100 empty_world) = Ok 2 \<and>
   fetchPostsPage demo_run2 2 100 = Ok ([demo_post ''b''], 2) \<and>
   initialImport demo_run2 [Go, Work 2, Done 2] empty_world =
     Some (Err ''error during initial import: failed to vectorize articles: failed to vectorize articles in batch: vectorizer down'',
           demo_end2) \<and>
   of_page 2 (fetches (events demo_end2)) = [(2, 100)] \<and>
   of_page 2 (stores (events demo_end2)) = [] \<and>
   pipelines (db demo_end2) = [[article_HSet (demo_article ''a'')]] \<and>
   hashes (db demo_end2) (ArticlePrefix @ ''b'') = None"
proof -
  have "1 \<le> maxGoroutines demo_run2"
    by (simp add: demo_run2_def demo_importer_def)
  moreover have "store_StoreArticles demo_run2 = StoreArticles"
    by (simp add: demo_run2_def demo_importer_def)
  then have "fst (vectorizePostsPage demo_run2 1 100 empty_world) = Ok 2"
    by (simp add: vectorizePostsPage_cases demo_page_articles2 StoreArticles_no_fault
          empty_world_def empty_redis_def page_total_def demo_fetch2)
  moreover have "of_page 2 (fetches (events demo_end2)) = [(2, 100)]"
    "of_page 2 (stores (events demo_end2)) = []"
    "pipelines (db demo_end2) = [[article_HSet (demo_article ''a'')]]"
    "hashes (db demo_end2) (ArticlePrefix @ ''b'') = None"
    by (simp_all add: demo_end2_def of_page_def article_HSet_def demo_article_def ArticlePrefix_def)
  ultimately show ?thesis
    using demo_fetch2 demo_initialImport2 by simp
qed

text \<open>
  Claim C2, amended.  With a limit of at least 1, at no point of any schedule are more
  tasks in flight than the limit; and whenever \<open>initialImport\<close> returns, each page from 1 to
  the number of pages has been fetched exactly once, at page size 100, and its documents
  have been handed to the store exactly once if its fetch and its vectorization succeeded
  and not at all otherwise; no other page has been touched.
\<close>

theorem initialImport_bounded_and_once:
  assumes limit: "1 \<le> maxGoroutines i" and first: "vectorizePostsPage i 1 100 w = (Ok n, w1)"
  shows "(\<forall>as g. run i n (start w1) as = Some g \<longrightarrow> int (in_flight g) \<le> maxGoroutines i) \<and>
         (\<forall>sched r w'. initialImport i sched w = Some (r, w') \<and> r \<noteq> Panic \<longrightarrow>
            (\<exists>evs. events w' = events w @ evs \<and>
               (\<forall>p. of_page p (fetches evs) = (if p \<in> insert 1 {2..n} then [(p, 100)] else [])) \<and>
               (\<forall>p. of_page p (stores evs) = (if p \<in> insert 1 {2..n} then page_stores i p else []))))"
proof (intro conjI allI impI)
  fix as g
  assume "run i n (start w1) as = Some g"
  from run_in_flight [OF this] limit show "int (in_flight g) \<le> maxGoroutines i" by simp
next
  fix sched r w'
  assume "initialImport i sched w = Some (r, w') \<and> r \<noteq> Panic"
  with initialImport_Ok [OF first] obtain g where
    run: "run i n (start w1) sched = Some g" and c: "\<not> crashed g" and fin: "finished n g"
    and w': "w' = world g"
    by blast
  from run_books [OF run c] obtain evs where
    ev: "events (world g) = events w1 @ evs" and books: "books i n g evs" by blast
  from first_page_events [OF first] obtain a where
    a: "page_articles i 1 100 = Ok a" and w1: "events w1 = events w @ [Fetch 1 100, Store 1 a]"
    by blast
  let ?evs = "[Fetch 1 100, Store 1 a] @ evs"
  from ev w1 w' have e: "events w' = events w @ ?evs" by simp
  from books_finished [OF books fin] have w: "worked g evs = mset_set {2..n}" by simp
  have f: "of_page p (fetches ?evs) = (if p \<in> insert 1 {2..n} then [(p, 100)] else [])" for p
  proof -
    from books have "of_page p (fetches evs) = (if p \<in># worked g evs then [(p, 100)] else [])"
      by (simp add: books_def)
    then show ?thesis
      by (auto simp: w of_page_Cons)
  qed
  have s: "of_page p (stores ?evs) = (if p \<in> insert 1 {2..n} then page_stores i p else [])" for p
  proof -
    from books have "of_page p (stores evs) = (if p \<in># worked g evs then page_stores i p else [])"
      by (simp add: books_def)
    then show ?thesis
      using a by (auto simp: w of_page_Cons page_stores_def)
  qed
  from e f s
  show "\<exists>evs. events w' = events w @ evs \<and>
               (\<forall>p. of_page p (fetches evs) = (if p \<in> insert 1 {2..n} then [(p, 100)] else [])) \<and>
               (\<forall>p. of_page p (stores evs) = (if p \<in> insert 1 {2..n} then page_stores i p else []))"
    by (intro exI [of _ ?evs]) blast
qed


theorem initialImport_bounded_and_once_witness:
  "1 \<le> maxGoroutines demo_run \<and>
   vectorizePostsPage demo_run 1 100 empty_world = (Ok 5, demo_first) \<and>
   run demo_run 5 (start demo_first) [Go, Go] =
     Some ((start demo_first)\<lparr>running := [2, 3], next_page := 4\<rparr>) \<and>
   int (in_flight ((start demo_first)\<lparr>running := [2, 3], next_page := 4\<rparr>)) \<le> maxGoroutines demo_run \<and>
   step demo_run 5 ((start demo_first)\<lparr>running := [2, 3], next_page := 4\<rparr>) Go = None \<and>
   initialImport demo_run demo_schedule empty_world =
     Some (Err ''error during initial import: failed to fetch posts for page 3: failed to create request: connection refused'',
           demo_end) \<and>
   fetches (events demo_end) = [(1, 100), (3, 100), (2, 100), (4, 100), (5, 100)] \<and>
   stores (events demo_end) =
     [(1, [demo_article ''a'']), (2, [demo_article ''b'']), (4, [demo_article ''d'']),
      (5, [demo_article ''e''])] \<and>
   of_page 3 (stores (events demo_end)) = page_stores demo_run 3 \<and>
   of_page 4 (stores (events demo_end)) = page_stores demo_run 4"
proof -
  have l: "1 \<le> maxGoroutines demo_run"
    by (simp add: demo_run_def demo_importer_def)
  have m: "maxGoroutines demo_run = 2"
    by (simp add: demo_run_def demo_importer_def)
  let ?g = "(start demo_first)\<lparr>running := [2, 3], next_page := 4\<rparr>"
  have r: "run demo_run 5 (start demo_first) [Go, Go] = Some ?g"
    by (simp add: step.simps start_def room_def in_flight_def m)
  have b: "step demo_run 5 ?g Go = None"
    by (simp add: step.simps start_def room_def in_flight_def m)
  have f: "fetches (events demo_end) = [(1, 100), (3, 100), (2, 100), (4, 100), (5, 100)]"
    and s: "stores (events demo_end) =
     [(1, [demo_article ''a'']), (2, [demo_article ''b'']), (4, [demo_article ''d'']),
      (5, [demo_article ''e''])]"
    by (simp_all add: demo_end_def)
  from initialImport_bounded_and_once [OF l demo_first]
  have bound: "int (in_flight ?g) \<le> maxGoroutines demo_run"
    and "\<exists>evs. events demo_end = events empty_world @ evs \<and>
      (\<forall>p. of_page p (stores evs) = (if p \<in> insert 1 {2..5} then page_stores demo_run p else []))"
    using r demo_initialImport by blast+
  then have once: "of_page p (stores (events demo_end)) =
      (if p \<in> insert 1 {2..5} then page_stores demo_run p else [])" for p
    by (simp add: empty_world_def)
  from once [of 3] once [of 4] l demo_first r bound b demo_initialImport f s show ?thesis
    by simp
qed

end
